theory Spec2Isabelle
  imports Complex_Main
begin

section \<open>Python strings\<close>

text \<open>
  A Python \<open>str\<close> is modelled as a \<open>string\<close> whose characters are the code points
  below 256 (Latin-1).  On that range \<open>str.isspace\<close> holds for the twelve characters of
  \<open>whitespace_chars\<close>, and \<open>str.lower\<close> maps \<open>A..Z\<close> and the accented capitals
  \<open>0xC0..0xDE\<close> (without the multiplication sign \<open>0xD7\<close>) to the character 32 places
  further on and leaves every other character alone.
\<close>

definition whitespace_chars :: "char list" where
  "whitespace_chars =
     [CHR 0x09, CHR 0x0A, CHR 0x0B, CHR 0x0C, CHR 0x0D,
      CHR 0x1C, CHR 0x1D, CHR 0x1E, CHR 0x1F, CHR 0x20, CHR 0x85, CHR 0xA0]"

definition isspace :: "char \<Rightarrow> bool" where
  "isspace c = (c \<in> set whitespace_chars)"

definition uppercase_chars :: "char list" where
  "uppercase_chars = ''ABCDEFGHIJKLMNOPQRSTUVWXYZ'' @
     [CHR 0xC0, CHR 0xC1, CHR 0xC2, CHR 0xC3, CHR 0xC4, CHR 0xC5, CHR 0xC6, CHR 0xC7,
      CHR 0xC8, CHR 0xC9, CHR 0xCA, CHR 0xCB, CHR 0xCC, CHR 0xCD, CHR 0xCE, CHR 0xCF,
      CHR 0xD0, CHR 0xD1, CHR 0xD2, CHR 0xD3, CHR 0xD4, CHR 0xD5, CHR 0xD6,
      CHR 0xD8, CHR 0xD9, CHR 0xDA, CHR 0xDB, CHR 0xDC, CHR 0xDD, CHR 0xDE]"

definition lowercase_chars :: "char list" where
  "lowercase_chars = ''abcdefghijklmnopqrstuvwxyz'' @
     [CHR 0xE0, CHR 0xE1, CHR 0xE2, CHR 0xE3, CHR 0xE4, CHR 0xE5, CHR 0xE6, CHR 0xE7,
      CHR 0xE8, CHR 0xE9, CHR 0xEA, CHR 0xEB, CHR 0xEC, CHR 0xED, CHR 0xEE, CHR 0xEF,
      CHR 0xF0, CHR 0xF1, CHR 0xF2, CHR 0xF3, CHR 0xF4, CHR 0xF5, CHR 0xF6,
      CHR 0xF8, CHR 0xF9, CHR 0xFA, CHR 0xFB, CHR 0xFC, CHR 0xFD, CHR 0xFE]"

definition lower_char :: "char \<Rightarrow> char" where
  "lower_char c =
     (case map_of (zip uppercase_chars lowercase_chars) c of Some l \<Rightarrow> l | None \<Rightarrow> c)"

text \<open>\<open>s.lower()\<close>\<close>

definition lower :: "string \<Rightarrow> string" where
  "lower s = map lower_char s"

text \<open>\<open>s.strip()\<close>: leading and trailing whitespace removed.\<close>

definition strip :: "string \<Rightarrow> string" where
  "strip s = rev (dropWhile isspace (rev (dropWhile isspace s)))"

text \<open>\<open>a or b\<close> on strings: the empty string is falsy.\<close>

definition str_or :: "string \<Rightarrow> string \<Rightarrow> string" where
  "str_or a b = (if a \<noteq> [] then a else b)"

text \<open>\<open>a or b\<close> where \<open>a\<close> may be \<open>None\<close>: \<open>None\<close> and the empty string are falsy.\<close>

definition opt_or :: "string option \<Rightarrow> string \<Rightarrow> string" where
  "opt_or a b = (case a of None \<Rightarrow> b | Some v \<Rightarrow> str_or v b)"

text \<open>\<open>p in t\<close> on strings: \<open>p\<close> occurs in \<open>t\<close> as a contiguous substring.\<close>

fun starts_with :: "string \<Rightarrow> string \<Rightarrow> bool" where
  "starts_with t [] = True"
| "starts_with [] (c # p) = False"
| "starts_with (d # t) (c # p) = (d = c \<and> starts_with t p)"

fun str_in :: "string \<Rightarrow> string \<Rightarrow> bool" where
  "str_in p [] = (p = [])"
| "str_in p (d # t) = (starts_with (d # t) p \<or> str_in p t)"

text \<open>\<open>sep.join(xs)\<close>\<close>

fun join :: "string \<Rightarrow> string list \<Rightarrow> string" where
  "join sep [] = []"
| "join sep [x] = x"
| "join sep (x # y # xs) = x @ sep @ join sep (y # xs)"

section \<open>Module configuration\<close>

text \<open>
  The module constants read from the environment at import time.  \<open>os.getenv\<close> with a
  default always gives a string; \<open>WHISPER_COMPUTE_TYPE\<close> is an option because the code
  guards it with \<open>or "auto"\<close>, which also covers \<open>None\<close>.
\<close>

record config =
  DEFAULT_MODEL_NAME :: string
  WHISPER_DEVICE :: string
  WHISPER_COMPUTE_TYPE :: "string option"
  WHISPER_BEAM_SIZE :: int

definition MODEL_ALIASES :: "string \<rightharpoonup> string" where
  "MODEL_ALIASES = [''large-v3-turbo'' \<mapsto> ''large-v3'']"

section \<open>Exceptions and log records\<close>

text \<open>
  The instances of \<open>Exception\<close> the code tells apart.  \<open>ValueError\<close> stands for
  \<open>ValueError\<close> and its subclasses (what \<open>except ValueError\<close> catches),
  \<open>ModelNotAvailableError\<close> carries its message and its \<open>__cause__\<close>; the string of
  the other constructors is \<open>str(exc)\<close>, and \<open>OtherException\<close> also has the class name.

  An exception object is truthy unless its class defines \<open>__bool__\<close> or \<open>__len__\<close>.
  The code tests the truth value of one object only, the \<open>ValueError\<close> it caught last
  (\<open>if last_error:\<close>), so the falsy objects of the model are the instances of such a
  subclass of \<open>ValueError\<close>: \<open>FalsyValueError\<close>.
\<close>

datatype py_exception =
    ValueError string
  | FalsyValueError string
  | ModelNotAvailableError string "py_exception option"
  | RuntimeError string
  | OSError string
  | OtherException string string

fun exc_str :: "py_exception \<Rightarrow> string" where
  "exc_str (ValueError m) = m"
| "exc_str (FalsyValueError m) = m"
| "exc_str (ModelNotAvailableError m c) = m"
| "exc_str (RuntimeError m) = m"
| "exc_str (OSError m) = m"
| "exc_str (OtherException cls m) = m"

text \<open>\<open>isinstance(exc, ValueError)\<close>\<close>

fun is_ValueError :: "py_exception \<Rightarrow> bool" where
  "is_ValueError (ValueError m) = True"
| "is_ValueError (FalsyValueError m) = True"
| "is_ValueError e = False"

text \<open>\<open>bool(exc)\<close>\<close>

fun py_bool :: "py_exception \<Rightarrow> bool" where
  "py_bool (FalsyValueError m) = False"
| "py_bool e = True"

fun is_ModelNotAvailableError :: "py_exception \<Rightarrow> bool" where
  "is_ModelNotAvailableError (ModelNotAvailableError m c) = True"
| "is_ModelNotAvailableError e = False"

datatype log_level = INFO | WARNING | ERROR

text \<open>
  The arguments of a log call are kept as they are passed, unformatted: a string, an
  exception, the size of the upload in bytes (logged in MB), the elapsed time (a float
  the model does not compute) and the \<open>%r\<close> of a string.
\<close>

datatype log_arg =
    ArgStr string
  | ArgExc py_exception
  | ArgSizeBytes nat
  | ArgElapsed
  | ArgRepr string

type_synonym log_record = "log_level \<times> string \<times> log_arg list"

section \<open>Model name normalisation\<close>

text \<open>
  \<open>normalize_model_name\<close>, with the record it logs when the alias applies.
  \<open>MODEL_ALIASES.get\<close> gives \<open>None\<close> or the target; \<open>if alias\<close> also asks the
  target to be non-empty.
\<close>

definition normalize_model_name_log :: "config \<Rightarrow> string option \<Rightarrow> string \<times> log_record list" where
  "normalize_model_name_log cfg requested_name =
     (let normalized = strip (opt_or requested_name []);
          normalized = str_or normalized (DEFAULT_MODEL_NAME cfg)
      in case MODEL_ALIASES (lower normalized) of
           None \<Rightarrow> (normalized, [])
         | Some alias \<Rightarrow>
             if alias \<noteq> []
             then (alias, [(INFO, ''Model alias mapping applied: '' @ [CHR 0x27] @ ''%s'' @ [CHR 0x27]
                              @ '' -> '' @ [CHR 0x27] @ ''%s'' @ [CHR 0x27],
                            [ArgStr normalized, ArgStr alias])])
             else (normalized, []))"

definition normalize_model_name :: "config \<Rightarrow> string option \<Rightarrow> string" where
  "normalize_model_name cfg requested_name = fst (normalize_model_name_log cfg requested_name)"

section \<open>Compute-type candidates\<close>

text \<open>The local function \<open>add\<close> of \<open>_compute_type_candidates\<close>, on the list it appends to.\<close>

definition add :: "string list \<Rightarrow> string \<Rightarrow> string list" where
  "add candidates candidate =
     (if candidate \<noteq> [] \<and> candidate \<notin> set candidates then candidates @ [candidate]
      else candidates)"

definition compute_type_candidates :: "config \<Rightarrow> string list" where
  "compute_type_candidates cfg =
     (let configured = str_or (strip (opt_or (WHISPER_COMPUTE_TYPE cfg) ''auto'')) ''auto'';
          configured_lower = lower configured;
          candidates = add [] configured;
          candidates = (if configured_lower = ''float16''
                        then add (add candidates ''int8_float32'') ''int8''
                        else candidates)
      in add candidates ''auto'')"

section \<open>The model cache\<close>

text \<open>
  A call of the external constructor \<open>WhisperModel(name, device=..., compute_type=...)\<close>
  is the triple of its arguments.  The constructor either raises or returns a handle of
  the type \<open>'h\<close>; what it does may depend on the calls made before (a test double that
  counts its attempts, files that appear on disk), so it is a function of the calls so
  far and of the call.
\<close>

type_synonym ctor_call = "string \<times> string \<times> string"

type_synonym 'h ctor = "ctor_call list \<Rightarrow> ctor_call \<Rightarrow> py_exception + 'h"

text \<open>
  The state of the process: the dictionary \<open>_MODEL_CACHE\<close>, the constructor calls made
  so far, the records logged so far, the temporary files that exist, and the paths
  \<open>unlink\<close> has been called on.  Requests are taken one at a time, so \<open>_MODEL_LOCK\<close>
  has no part in the model.
\<close>

record 'h server_state =
  MODEL_CACHE :: "string \<rightharpoonup> 'h"
  ctor_calls :: "ctor_call list"
  logged :: "log_record list"
  tmp_files :: "string set"
  unlink_calls :: "string list"

definition missing :: "string \<Rightarrow> bool" where
  "missing error_text =
     list_ex (\<lambda>phrase. str_in phrase error_text)
       [''not found'', ''no such file'', ''could not be found'']"

definition unable_message :: "string \<Rightarrow> string" where
  "unable_message normalized_name =
     ''Unable to load Whisper model '' @ [CHR 0x27] @ normalized_name @ [CHR 0x27]
       @ '' with any compute type.''"

text \<open>
  What \<open>get_model\<close> raises once the loop over the candidates has run to its end.  The
  test \<open>if last_error:\<close> is a truth test: it fails for \<open>None\<close> and for a falsy
  exception object, and then the generic \<open>RuntimeError\<close> is raised.
\<close>

definition raise_after_loop :: "string \<Rightarrow> py_exception option \<Rightarrow> py_exception" where
  "raise_after_loop normalized_name last_error =
     (let message = unable_message normalized_name
      in case last_error of
           Some exc \<Rightarrow>
             if py_bool exc
             then (let error_text = lower (exc_str exc)
                   in if missing error_text
                      then ModelNotAvailableError
                             (message @ '' Model files are not available locally.'') (Some exc)
                      else exc)
             else RuntimeError message
         | None \<Rightarrow> RuntimeError message)"

text \<open>\<open>logger.info\<close>, \<open>logger.warning\<close> and \<open>logger.exception\<close> (level \<open>ERROR\<close>).\<close>

definition logger :: "log_level \<Rightarrow> string \<Rightarrow> log_arg list \<Rightarrow> 'h server_state \<Rightarrow> 'h server_state" where
  "logger level fmt args s = s\<lparr>logged := logged s @ [(level, fmt, args)]\<rparr>"

text \<open>The loop over the candidates, from the candidates still to try.\<close>

fun load_loop ::
  "config \<Rightarrow> 'h ctor \<Rightarrow> string \<Rightarrow> string list \<Rightarrow> py_exception option \<Rightarrow> 'h server_state
     \<Rightarrow> (py_exception + 'h) \<times> 'h server_state" where
  "load_loop cfg WhisperModel normalized_name [] last_error s =
     (Inl (raise_after_loop normalized_name last_error), s)"
| "load_loop cfg WhisperModel normalized_name (compute_type # rest) last_error s =
     (let s1 = logger INFO
                 (''Loading Whisper model '' @ [CHR 0x27] @ ''%s'' @ [CHR 0x27]
                    @ '' (device=%s, compute_type=%s)'')
                 [ArgStr normalized_name, ArgStr (WHISPER_DEVICE cfg), ArgStr compute_type] s;
          call = (normalized_name, WHISPER_DEVICE cfg, compute_type);
          s2 = s1\<lparr>ctor_calls := ctor_calls s1 @ [call]\<rparr>
      in case WhisperModel (ctor_calls s1) call of
           Inr model \<Rightarrow>
             (Inr model, s2\<lparr>MODEL_CACHE := (MODEL_CACHE s2)(normalized_name \<mapsto> model)\<rparr>)
         | Inl exc \<Rightarrow>
             if is_ValueError exc
             then load_loop cfg WhisperModel normalized_name rest (Some exc)
                    (logger WARNING
                       (''Failed to load Whisper model '' @ [CHR 0x27] @ ''%s'' @ [CHR 0x27]
                          @ '' with compute_type=%s: %s'')
                       [ArgStr normalized_name, ArgStr compute_type, ArgExc exc] s2)
             else (Inl exc, s2))"

definition get_model ::
  "config \<Rightarrow> 'h ctor \<Rightarrow> string \<Rightarrow> 'h server_state \<Rightarrow> (py_exception + 'h) \<times> 'h server_state" where
  "get_model cfg WhisperModel model_name s =
     (let (normalized_name, records) = normalize_model_name_log cfg (Some model_name);
          s0 = s\<lparr>logged := logged s @ records\<rparr>
      in case MODEL_CACHE s0 normalized_name of
           Some model \<Rightarrow> (Inr model, s0)
         | None \<Rightarrow>
             load_loop cfg WhisperModel normalized_name (compute_type_candidates cfg) None s0)"

section \<open>Transcription\<close>

text \<open>
  A segment as the inference library yields it.  The floats of a segment are carried
  into the response and never computed with, so they are of an arbitrary type \<open>'f\<close>;
  \<open>segment.text\<close> may be \<open>None\<close>.
\<close>

record 'f segment =
  seg_start :: 'f
  seg_end :: 'f
  seg_text :: "string option"
  seg_tokens :: "int list"
  seg_avg_logprob :: 'f
  seg_compression_ratio :: 'f
  seg_no_speech_prob :: 'f

text \<open>The dictionary \<open>run_transcription\<close> builds for a segment; the literal \<open>0.0\<close> of
  \<open>temperature\<close> is the real number \<open>0\<close>.\<close>

record 'f segment_dict =
  dict_id :: nat
  dict_seek :: int
  dict_start :: 'f
  dict_end :: 'f
  dict_text :: "string option"
  dict_tokens :: "int list"
  dict_temperature :: real
  dict_avg_logprob :: 'f
  dict_compression_ratio :: 'f
  dict_no_speech_prob :: 'f

text \<open>
  \<open>model.transcribe(str(audio_path), beam_size=..., vad_filter=True)\<close>, from the handle,
  the path and the beam size: the call raises, or it returns a generator, which is
  modelled by the segments it yields and the exception that ends it, if one does.
\<close>

type_synonym ('h, 'f) transcribe =
  "'h \<Rightarrow> string \<Rightarrow> int \<Rightarrow> py_exception + ('f segment list \<times> py_exception option)"

text \<open>The loop over the generator, from the index and the segments still to come.\<close>

fun collect_segments ::
  "nat \<Rightarrow> 'f segment list \<Rightarrow> 'f segment_dict list \<Rightarrow> string list
     \<Rightarrow> 'f segment_dict list \<times> string list" where
  "collect_segments index [] segments collected_text = (segments, collected_text)"
| "collect_segments index (segment # rest) segments collected_text =
     (let text = strip (opt_or (seg_text segment) []);
          collected_text = (if text \<noteq> [] then collected_text @ [text] else collected_text);
          segments = segments @
            [\<lparr>dict_id = index, dict_seek = 0, dict_start = seg_start segment,
              dict_end = seg_end segment, dict_text = seg_text segment,
              dict_tokens = seg_tokens segment, dict_temperature = 0,
              dict_avg_logprob = seg_avg_logprob segment,
              dict_compression_ratio = seg_compression_ratio segment,
              dict_no_speech_prob = seg_no_speech_prob segment\<rparr>]
      in collect_segments (Suc index) rest segments collected_text)"

definition run_transcription ::
  "config \<Rightarrow> 'h ctor \<Rightarrow> ('h, 'f) transcribe \<Rightarrow> string \<Rightarrow> string \<Rightarrow> 'h server_state
     \<Rightarrow> (py_exception + string \<times> 'f segment_dict list) \<times> 'h server_state" where
  "run_transcription cfg WhisperModel transcribe audio_path model_name s =
     (case get_model cfg WhisperModel model_name s of
        (Inl exc, s1) \<Rightarrow> (Inl exc, s1)
      | (Inr model, s1) \<Rightarrow>
          (case transcribe model audio_path (WHISPER_BEAM_SIZE cfg) of
             Inl exc \<Rightarrow> (Inl exc, s1)
           | Inr (yielded, raised) \<Rightarrow>
               (let (segments, collected_text) = collect_segments 0 yielded [] []
                in case raised of
                     Some exc \<Rightarrow> (Inl exc, s1)
                   | None \<Rightarrow>
                       (let full_text = strip (join '' '' collected_text)
                        in (Inr (full_text, segments), s1)))))"

section \<open>The endpoint\<close>

text \<open>
  What the handler reads from a request: the filename of the uploaded part, the outcome
  of \<open>await file.read()\<close> (the bytes, as numbers), the form field \<open>model\<close> and the
  query parameter \<open>model\<close>.
\<close>

record request =
  filename :: "string option"
  file_read :: "py_exception + nat list"
  form_model :: "string option"
  query_model :: "string option"

text \<open>
  What the environment does for one request: \<open>Path(name).suffix\<close>;
  \<open>NamedTemporaryFile(delete=False, suffix=...)\<close>, which raises or creates a file and
  gives its path; whether writing the bytes to that file (the \<open>write\<close> and the flush
  that closes the \<open>with\<close> block) raises; whether \<open>unlink\<close> raises \<open>OSError\<close>;
  \<open>uuid4().hex\<close> and \<open>int(time.time())\<close>.
\<close>

record io =
  Path_suffix :: "string \<Rightarrow> string"
  NamedTemporaryFile :: "string \<Rightarrow> py_exception + string"
  tmp_write :: "py_exception option"
  unlink_fails :: bool
  uuid_hex :: string
  time_now :: int

record 'f payload =
  payload_id :: string
  payload_object :: string
  payload_created :: int
  payload_model :: string
  payload_text :: string
  payload_segments :: "'f segment_dict list"

text \<open>
  How the handler ends: it returns the payload (HTTP 200), it raises \<open>HTTPException\<close>
  with a status code and a detail, or another exception leaves it.
\<close>

datatype 'f response =
    Returned "'f payload"
  | HTTPException nat string
  | Propagated py_exception

text \<open>\<open>a or b\<close> where both may be \<open>None\<close>.\<close>

definition opt_or_opt :: "string option \<Rightarrow> string option \<Rightarrow> string option" where
  "opt_or_opt a b = (case a of None \<Rightarrow> b | Some v \<Rightarrow> if v \<noteq> [] then Some v else b)"

text \<open>The \<open>finally\<close> block: \<open>temp_path.unlink()\<close> and its \<open>except OSError\<close>.\<close>

definition finally_unlink :: "io \<Rightarrow> string \<Rightarrow> 'h server_state \<Rightarrow> 'h server_state" where
  "finally_unlink env temp_path s =
     (let s1 = s\<lparr>unlink_calls := unlink_calls s @ [temp_path]\<rparr>
      in if unlink_fails env
         then logger WARNING ''Failed to remove temporary file %s'' [ArgStr temp_path] s1
         else s1\<lparr>tmp_files := tmp_files s1 - {temp_path}\<rparr>)"

text \<open>
  The handler from its \<open>try\<close> statement on: the transcription with its two \<open>except\<close>
  clauses and the \<open>finally\<close> block, and the payload returned after them.
\<close>

definition try_transcription ::
  "config \<Rightarrow> 'h ctor \<Rightarrow> ('h, 'f) transcribe \<Rightarrow> io \<Rightarrow> string \<Rightarrow> string \<Rightarrow> string
     \<Rightarrow> 'h server_state \<Rightarrow> 'f response \<times> 'h server_state" where
  "try_transcription cfg WhisperModel transcribe env file_name temp_path selected_model s =
     (case run_transcription cfg WhisperModel transcribe temp_path selected_model s of
        (Inr (full_text, segments), s1) \<Rightarrow>
          (let preview = take 200 full_text;
               s2 = logger INFO
                      ''Completed transcription file=%s model=%s duration=%.2fs text_preview=%r''
                      [ArgStr file_name, ArgStr selected_model, ArgElapsed, ArgRepr preview] s1;
               s3 = finally_unlink env temp_path s2
           in (Returned
                 \<lparr>payload_id = ''transcription-'' @ uuid_hex env,
                  payload_object = ''transcription'',
                  payload_created = time_now env,
                  payload_model = selected_model,
                  payload_text = full_text,
                  payload_segments = segments\<rparr>, s3))
      | (Inl exc, s1) \<Rightarrow>
          if is_ModelNotAvailableError exc
          then (let s2 = logger ERROR ''Whisper model not available locally: %s'' [ArgExc exc] s1
                in (HTTPException 503
                      (''Model '' @ [CHR 0x27] @ selected_model @ [CHR 0x27]
                         @ '' is not available locally. Download it before retrying.''),
                    finally_unlink env temp_path s2))
          else (let s2 = logger ERROR ''Whisper transcription failed: %s'' [ArgExc exc] s1
                in (HTTPException 500 ''Whisper transcription failed.'',
                    finally_unlink env temp_path s2)))"

text \<open>The handler of \<open>POST /v1/audio/transcriptions\<close>.\<close>

definition create_transcription ::
  "config \<Rightarrow> 'h ctor \<Rightarrow> ('h, 'f) transcribe \<Rightarrow> io \<Rightarrow> request \<Rightarrow> 'h server_state
     \<Rightarrow> 'f response \<times> 'h server_state" where
  "create_transcription cfg WhisperModel transcribe env req s =
     (if opt_or (filename req) [] = []
      then (HTTPException 400 ''Uploaded file must include a filename.'', s)
      else case file_read req of
        Inl exc \<Rightarrow>
          (HTTPException 400 ''Unable to read uploaded file.'',
           logger ERROR ''Failed to read upload: %s'' [ArgExc exc] s)
      | Inr file_bytes \<Rightarrow>
          if file_bytes = []
          then (HTTPException 400 ''Uploaded file is empty.'', s)
          else
            (let suffix = str_or (Path_suffix env (opt_or (filename req) [])) ''.mp3''
             in case NamedTemporaryFile env suffix of
                  Inl exc \<Rightarrow> (Propagated exc, s)
                | Inr temp_path \<Rightarrow>
                    (let s1 = s\<lparr>tmp_files := insert temp_path (tmp_files s)\<rparr>
                     in case tmp_write env of
                          Some exc \<Rightarrow> (Propagated exc, s1)
                        | None \<Rightarrow>
                            (let (selected_model, records) =
                                   normalize_model_name_log cfg
                                     (opt_or_opt (form_model req) (query_model req));
                                 s2 = s1\<lparr>logged := logged s1 @ records\<rparr>;
                                 s3 = logger INFO
                                        ''Received transcription request file=%s size=%.2f MB model=%s''
                                        [ArgStr (opt_or (filename req) []),
                                         ArgSizeBytes (length file_bytes), ArgStr selected_model] s2
                             in try_transcription cfg WhisperModel transcribe env
                                  (opt_or (filename req) []) temp_path selected_model s3))))"

definition health_check :: "(string \<times> string) list" where
  "health_check = [(''status'', ''ok'')]"

section \<open>Definitions used to state the properties\<close>

text \<open>
  The alias-resolved form of a name, in the words of the specification: the lowercased
  name is looked up in the alias table, and the target replaces the name when found.
\<close>

definition alias_resolved :: "string \<Rightarrow> string" where
  "alias_resolved name =
     (case MODEL_ALIASES (lower name) of Some target \<Rightarrow> target | None \<Rightarrow> name)"

text \<open>The configuration of the test suite: the alias as default, \<open>float16\<close> configured.\<close>

definition example_config :: config where
  "example_config =
     \<lparr>DEFAULT_MODEL_NAME = ''large-v3-turbo'', WHISPER_DEVICE = ''auto'',
      WHISPER_COMPUTE_TYPE = Some ''float16'', WHISPER_BEAM_SIZE = 5\<rparr>"

text \<open>A configuration whose default model name is the empty string
  (\<open>LOCAL_WHISPER_MODEL\<close> set, and empty).\<close>

definition empty_default_config :: config where
  "empty_default_config =
     \<lparr>DEFAULT_MODEL_NAME = [], WHISPER_DEVICE = ''auto'',
      WHISPER_COMPUTE_TYPE = Some ''auto'', WHISPER_BEAM_SIZE = 5\<rparr>"

text \<open>
  The candidate list in the words of the specification: the trimmed configured value
  (\<open>auto\<close> when unset or blank), then the two fallbacks when that value is \<open>float16\<close>
  up to case, then \<open>auto\<close>; a candidate already in the list is skipped.
\<close>

definition dedup_first :: "string list \<Rightarrow> string list" where
  "dedup_first xs = fold (\<lambda>c acc. if c \<in> set acc then acc else acc @ [c]) xs []"

definition spec_candidates :: "config \<Rightarrow> string list" where
  "spec_candidates cfg =
     (let configured = (case WHISPER_COMPUTE_TYPE cfg of
                          None \<Rightarrow> ''auto''
                        | Some v \<Rightarrow> if strip v = [] then ''auto'' else strip v)
      in dedup_first ([configured]
           @ (if lower configured = ''float16'' then [''int8_float32'', ''int8''] else [])
           @ [''auto'']))"

text \<open>
  The constructor call \<open>get_model\<close> makes for a candidate, and the outcome of the
  attempt number \<open>i\<close> of a load that starts after the calls \<open>before\<close>, all the
  candidates in front of it having been attempted.
\<close>

definition call_of :: "config \<Rightarrow> string \<Rightarrow> string \<Rightarrow> ctor_call" where
  "call_of cfg normalized_name compute_type = (normalized_name, WHISPER_DEVICE cfg, compute_type)"

definition attempt_outcome ::
  "config \<Rightarrow> 'h ctor \<Rightarrow> string \<Rightarrow> ctor_call list \<Rightarrow> string list \<Rightarrow> nat \<Rightarrow> py_exception + 'h" where
  "attempt_outcome cfg WhisperModel normalized_name before candidates i =
     WhisperModel (before @ map (call_of cfg normalized_name) (take i candidates))
       (call_of cfg normalized_name (candidates ! i))"

text \<open>An attempt that ends in an exception the \<open>except ValueError\<close> clause catches.\<close>

definition caught :: "py_exception + 'h \<Rightarrow> bool" where
  "caught outcome = (case outcome of Inl exc \<Rightarrow> is_ValueError exc | Inr model \<Rightarrow> False)"

text \<open>
  A phrase occurs in a text, in the words of the specification (the text contains the
  substring): the text is some prefix, the phrase, and some rest.
\<close>

definition occurs_in :: "string \<Rightarrow> string \<Rightarrow> bool" where
  "occurs_in phrase text = (\<exists>before rest. text = before @ phrase @ rest)"

text \<open>The state of a fresh process.\<close>

definition empty_state :: "'h server_state" where
  "empty_state = \<lparr>MODEL_CACHE = Map.empty, ctor_calls = [], logged = [], tmp_files = {},
                   unlink_calls = []\<rparr>"

text \<open>
  Constructors to run the model on.  \<open>FakeModel\<close> is the test double of the test suite:
  it rejects \<open>float16\<close> with a \<open>ValueError\<close> and otherwise returns an object that
  records its arguments.  \<open>MissingModel\<close> rejects every candidate with a \<open>ValueError\<close>
  that says the files are missing, \<open>RejectingModel\<close> rejects every candidate with a
  \<open>ValueError\<close> that says nothing about files, \<open>FalsyMissingModel\<close> rejects every
  candidate with a falsy \<open>ValueError\<close> object, \<open>BrokenModel\<close> rejects \<open>float16\<close> and
  then fails with an \<open>OSError\<close>, and \<open>NeverCalled\<close> fails whenever it is invoked.
\<close>

definition FakeModel :: "ctor_call ctor" where
  "FakeModel before call =
     (case call of (name, device, compute_type) \<Rightarrow>
        if compute_type = ''float16'' then Inl (ValueError ''float16 unsupported'')
        else Inr (name, device, compute_type))"

definition MissingModel :: "ctor_call ctor" where
  "MissingModel before call = Inl (ValueError ''Model file Could Not Be Found in cache'')"

definition BrokenModel :: "ctor_call ctor" where
  "BrokenModel before call =
     (case call of (name, device, compute_type) \<Rightarrow>
        if compute_type = ''float16'' then Inl (ValueError ''float16 unsupported'')
        else Inl (OSError ''model.bin not found''))"

definition RejectingModel :: "ctor_call ctor" where
  "RejectingModel before call = Inl (ValueError ''Requested compute type is unsupported'')"

definition FalsyMissingModel :: "ctor_call ctor" where
  "FalsyMissingModel before call = Inl (FalsyValueError ''model not found'')"

definition NeverCalled :: "ctor_call ctor" where
  "NeverCalled before call = Inl (OtherException ''AssertionError'' ''constructor invoked again'')"

text \<open>
  The full text in the words of the specification: the trimmed texts of the segments
  whose trimmed text is non-empty, joined by single spaces, the result trimmed.
\<close>

definition spec_full_text :: "'f segment list \<Rightarrow> string" where
  "spec_full_text yielded =
     strip (join '' '' (filter (\<lambda>t. t \<noteq> [])
                          (map (\<lambda>segment. strip (opt_or (seg_text segment) [])) yielded)))"

text \<open>A transcription to run the model on: four segments, two of them without text.\<close>

definition stub_segments :: "real segment list" where
  "stub_segments =
     [\<lparr>seg_start = 0, seg_end = 1, seg_text = Some '' Hello '', seg_tokens = [1],
        seg_avg_logprob = 0, seg_compression_ratio = 0, seg_no_speech_prob = 0\<rparr>,
      \<lparr>seg_start = 1, seg_end = 2, seg_text = Some ''   '', seg_tokens = [],
        seg_avg_logprob = 0, seg_compression_ratio = 0, seg_no_speech_prob = 0\<rparr>,
      \<lparr>seg_start = 2, seg_end = 3, seg_text = None, seg_tokens = [],
        seg_avg_logprob = 0, seg_compression_ratio = 0, seg_no_speech_prob = 0\<rparr>,
      \<lparr>seg_start = 3, seg_end = 4, seg_text = Some ''world. '', seg_tokens = [2],
        seg_avg_logprob = 0, seg_compression_ratio = 0, seg_no_speech_prob = 0\<rparr>]"

definition StubTranscribe :: "(ctor_call, real) transcribe" where
  "StubTranscribe model audio_path beam_size = Inr (stub_segments, None)"

text \<open>
  Two states with the same cache and the same constructor calls so far: what the log
  and the temporary files hold has no influence on loading a model.
\<close>

definition same_models :: "'h server_state \<Rightarrow> 'h server_state \<Rightarrow> bool" where
  "same_models s s' = (MODEL_CACHE s = MODEL_CACHE s' \<and> ctor_calls s = ctor_calls s')"

text \<open>
  The model name a request resolves to, and the requests that reach the \<open>try\<close>
  statement of the handler with the temporary file \<open>temp_path\<close>: a filename, bytes
  read and not empty, the file created and the bytes written.
\<close>

definition selected_model :: "config \<Rightarrow> request \<Rightarrow> string" where
  "selected_model cfg req =
     normalize_model_name cfg (opt_or_opt (form_model req) (query_model req))"

definition reaches_transcription :: "io \<Rightarrow> request \<Rightarrow> string \<Rightarrow> bool" where
  "reaches_transcription env req temp_path =
     (opt_or (filename req) [] \<noteq> []
      \<and> (case file_read req of Inl exc \<Rightarrow> False | Inr file_bytes \<Rightarrow> file_bytes \<noteq> [])
      \<and> NamedTemporaryFile env (str_or (Path_suffix env (opt_or (filename req) [])) ''.mp3'')
          = Inr temp_path
      \<and> tmp_write env = None)"

text \<open>
  A request and environments to run the handler on: the upload of the test suite with
  the form field \<open>model=base\<close>, an environment where every operation works, and one
  where the disk is full when the bytes are written.
\<close>

definition upload_request :: request where
  "upload_request =
     \<lparr>filename = Some ''test-speech.mp3'', file_read = Inr [73, 68, 51, 4],
      form_model = Some ''base'', query_model = None\<rparr>"

definition working_io :: io where
  "working_io =
     \<lparr>Path_suffix = (\<lambda>name. ''.mp3''),
      NamedTemporaryFile = (\<lambda>suffix. Inr (''/tmp/tmpa1'' @ suffix)),
      tmp_write = None, unlink_fails = False,
      uuid_hex = ''0123456789abcdef0123456789abcdef'', time_now = 1700000000\<rparr>"

definition disk_full_io :: io where
  "disk_full_io = working_io\<lparr>tmp_write := Some (OSError ''[Errno 28] No space left on device'')\<rparr>"

text \<open>
  What is done with the process, one call after the other: \<open>get_model\<close> called with a
  name, or a request handled by the endpoint (in its environment).  \<open>run_calls\<close> gives
  the state after a list of calls.
\<close>

datatype call = GetModel string | PostTranscription io request

fun run_calls ::
  "config \<Rightarrow> 'h ctor \<Rightarrow> ('h, 'f) transcribe \<Rightarrow> call list \<Rightarrow> 'h server_state \<Rightarrow> 'h server_state" where
  "run_calls cfg W T [] s = s"
| "run_calls cfg W T (GetModel model_name # rest) s =
     run_calls cfg W T rest (snd (get_model cfg W model_name s))"
| "run_calls cfg W T (PostTranscription env req # rest) s =
     run_calls cfg W T rest (snd (create_transcription cfg W T env req s))"

text \<open>A configuration whose default model name has a space on either side
  (\<open>LOCAL_WHISPER_MODEL\<close> set to \<open>" base "\<close>).\<close>

definition padded_default_config :: config where
  "padded_default_config =
     \<lparr>DEFAULT_MODEL_NAME = '' base '', WHISPER_DEVICE = ''auto'',
      WHISPER_COMPUTE_TYPE = Some ''auto'', WHISPER_BEAM_SIZE = 5\<rparr>"

section \<open>Strings: basic facts\<close>

lemma length_lower [simp]: "length (lower s) = length s"
  by (simp add: lower_def)

lemma lower_Nil [simp]: "lower [] = []"
  by (simp add: lower_def)

lemma strip_Nil [simp]: "strip [] = []"
  by (simp add: strip_def)

lemma strip_auto [simp]: "strip ''auto'' = ''auto''"
  by (simp add: strip_def isspace_def whitespace_chars_def)

lemmas lower_eval = lower_def lower_char_def uppercase_chars_def lowercase_chars_def

lemmas strip_eval = strip_def isspace_def whitespace_chars_def

lemma logger_fields [simp]:
  "MODEL_CACHE (logger level fmt args s) = MODEL_CACHE s"
  "ctor_calls (logger level fmt args s) = ctor_calls s"
  "tmp_files (logger level fmt args s) = tmp_files s"
  "unlink_calls (logger level fmt args s) = unlink_calls s"
  "logged (logger level fmt args s) = logged s @ [(level, fmt, args)]"
  by (simp_all add: logger_def)

section \<open>Model name normalisation: properties\<close>

lemmas normalize_defs =
  normalize_model_name_def normalize_model_name_log_def str_or_def opt_or_def Let_def
  MODEL_ALIASES_def

lemma normalize_blank:
  "strip (opt_or r []) = [] \<Longrightarrow>
     normalize_model_name cfg r = alias_resolved (DEFAULT_MODEL_NAME cfg)"
  by (simp add: normalize_model_name_def normalize_model_name_log_def alias_resolved_def
        str_or_def Let_def MODEL_ALIASES_def split: option.splits)

lemma normalize_alias:
  assumes "lower (strip name) = ''large-v3-turbo''"
  shows "normalize_model_name cfg (Some name) = ''large-v3''"
proof -
  from assms have ne: "strip name \<noteq> []" by auto
  then have "name \<noteq> []" by auto
  with assms ne show ?thesis
    by (simp add: normalize_defs)
qed

text \<open>
  C5.  \<open>normalize(None)\<close>, \<open>normalize("")\<close> and \<open>normalize("   ")\<close> are equal, each the
  alias-resolved form of the configured default; the alias lookup ignores the case of
  the input and returns the target in its own casing, so with the default
  \<open>large-v3-turbo\<close> both \<open>normalize(None)\<close> and \<open>normalize("LARGE-V3-TURBO")\<close> are
  \<open>large-v3\<close>.
\<close>

theorem normalize_default_and_alias:
  "normalize_model_name cfg None = alias_resolved (DEFAULT_MODEL_NAME cfg)
   \<and> normalize_model_name cfg (Some []) = alias_resolved (DEFAULT_MODEL_NAME cfg)
   \<and> normalize_model_name cfg (Some ''   '') = alias_resolved (DEFAULT_MODEL_NAME cfg)
   \<and> (lower (strip name) = ''large-v3-turbo'' \<longrightarrow>
        normalize_model_name cfg (Some name) = ''large-v3'')
   \<and> (DEFAULT_MODEL_NAME cfg = ''large-v3-turbo'' \<longrightarrow>
        normalize_model_name cfg None = ''large-v3''
        \<and> normalize_model_name cfg (Some ''LARGE-V3-TURBO'') = ''large-v3'')"
proof -
  have blank: "strip (opt_or None []) = []" "strip (opt_or (Some []) []) = []"
    "strip (opt_or (Some ''   '') []) = []"
    by (simp_all add: opt_or_def str_or_def strip_eval)
  have upper: "lower (strip ''LARGE-V3-TURBO'') = ''large-v3-turbo''"
    by (simp add: strip_eval lower_eval)
  have dflt: "DEFAULT_MODEL_NAME cfg = ''large-v3-turbo'' \<Longrightarrow>
                alias_resolved (DEFAULT_MODEL_NAME cfg) = ''large-v3''"
    by (simp add: alias_resolved_def MODEL_ALIASES_def lower_eval)
  show ?thesis
    using blank [THEN normalize_blank, of cfg] normalize_alias [of name cfg]
      normalize_alias [OF upper, of cfg] dflt
    by simp
qed

theorem normalize_default_and_alias_witness:
  "lower (strip '' Large-V3-Turbo '') = ''large-v3-turbo''
   \<and> DEFAULT_MODEL_NAME example_config = ''large-v3-turbo''
   \<and> normalize_model_name example_config (Some '' Large-V3-Turbo '') = ''large-v3''
   \<and> normalize_model_name example_config None = ''large-v3''
   \<and> normalize_model_name example_config (Some []) = ''large-v3''
   \<and> normalize_model_name example_config (Some ''   '') = ''large-v3''
   \<and> normalize_model_name example_config (Some ''LARGE-V3-TURBO'') = ''large-v3''"
proof -
  have h1: "lower (strip '' Large-V3-Turbo '') = ''large-v3-turbo''"
    by (simp add: strip_eval lower_eval)
  have h2: "DEFAULT_MODEL_NAME example_config = ''large-v3-turbo''"
    by (simp add: example_config_def)
  show ?thesis
    using h1 h2 normalize_default_and_alias [of example_config "'' Large-V3-Turbo ''"]
    by (simp add: alias_resolved_def MODEL_ALIASES_def lower_eval)
qed

text \<open>
  C8, as stated, fails: with an empty configured default, \<open>normalize(None)\<close> is the empty
  string.
\<close>

theorem normalize_empty_default_counterexample:
  "normalize_model_name empty_default_config None = []"
  by (simp add: normalize_defs empty_default_config_def)

text \<open>
  C8, amended.  \<open>normalize_model_name\<close> has no failing branch, and its result is the
  empty string exactly when the configured default is empty and the input is \<open>None\<close>,
  empty or whitespace only; so it returns a non-empty string for every input whenever
  the configured default is non-empty.
\<close>

theorem normalize_empty_iff:
  "(normalize_model_name cfg requested_name = []) =
     (DEFAULT_MODEL_NAME cfg = [] \<and> strip (opt_or requested_name []) = [])"
  by (auto simp add: normalize_model_name_def normalize_model_name_log_def str_or_def
        Let_def MODEL_ALIASES_def split: option.splits if_splits)

section \<open>Compute-type candidates: properties\<close>

lemma lower_float16_not_fallback:
  assumes "lower s = ''float16''"
  shows "s \<noteq> ''auto''" "s \<noteq> ''int8''" "s \<noteq> ''int8_float32''" "s \<noteq> []"
proof -
  from assms have "length s = 7" using length_lower [of s] by simp
  then show "s \<noteq> ''auto''" "s \<noteq> ''int8''" "s \<noteq> ''int8_float32''" "s \<noteq> []" by auto
qed

lemma cands_eq: "compute_type_candidates cfg = spec_candidates cfg"
  by (auto simp add: compute_type_candidates_def spec_candidates_def dedup_first_def add_def Let_def str_or_def opt_or_def 
      split: option.splits dest: lower_float16_not_fallback)

lemma cands_float16: "WHISPER_COMPUTE_TYPE cfg = Some ''float16'' \<Longrightarrow> compute_type_candidates cfg = [''float16'', ''int8_float32'', ''int8'', ''auto'']"
  by (simp add: compute_type_candidates_def add_def Let_def str_or_def opt_or_def strip_eval lower_eval)

lemma cands_nonempty: "compute_type_candidates cfg \<noteq> []"
  by (auto simp add: compute_type_candidates_def add_def Let_def str_or_def)

section \<open>The loop over the candidates\<close>

lemma is_ValueError_iff:
  "is_ValueError e = (\<exists>m. e = ValueError m \<or> e = FalsyValueError m)"
  by (cases e) auto

lemma caught_simps [simp]:
  "caught (Inl exc) = is_ValueError exc"
  "caught (Inr model) = False"
  by (simp_all add: caught_def)

lemma caught_iff: "caught outcome = (\<exists>exc. outcome = Inl exc \<and> is_ValueError exc)"
  by (cases outcome) simp_all

lemma attempt_outcome_0:
  "attempt_outcome cfg W n before (c # cands) 0 = W before (call_of cfg n c)"
  by (simp add: attempt_outcome_def)

lemma attempt_outcome_Suc:
  "attempt_outcome cfg W n before (c # cands) (Suc i) =
     attempt_outcome cfg W n (before @ [call_of cfg n c]) cands i"
  by (simp add: attempt_outcome_def)

lemma load_loop_step_caught:
  assumes "W (ctor_calls s) (call_of cfg n c) = Inl exc" and "is_ValueError exc"
  shows "\<exists>s3. load_loop cfg W n (c # cands) le s = load_loop cfg W n cands (Some exc) s3
               \<and> ctor_calls s3 = ctor_calls s @ [call_of cfg n c]
               \<and> MODEL_CACHE s3 = MODEL_CACHE s
               \<and> tmp_files s3 = tmp_files s \<and> unlink_calls s3 = unlink_calls s"
  using assms
  apply (simp add: Let_def call_of_def)
  apply (rule exI)
  apply (rule conjI)
   apply (rule refl)
  apply simp
  done

lemma load_loop_step_other:
  assumes "W (ctor_calls s) (call_of cfg n c) = r" and "\<not> caught r"
  shows "fst (load_loop cfg W n (c # cands) le s) = r"
    and "ctor_calls (snd (load_loop cfg W n (c # cands) le s)) = ctor_calls s @ [call_of cfg n c]"
    and "MODEL_CACHE (snd (load_loop cfg W n (c # cands) le s)) =
           (case r of Inr h \<Rightarrow> (MODEL_CACHE s)(n \<mapsto> h) | Inl e \<Rightarrow> MODEL_CACHE s)"
  using assms by (auto simp add: Let_def call_of_def split: sum.splits)

declare load_loop.simps(2) [simp del]

lemma load_loop_stop:
  assumes "k < length cands"
    and "\<forall>i<k. caught (attempt_outcome cfg W n (ctor_calls s) cands i)"
    and "attempt_outcome cfg W n (ctor_calls s) cands k = r"
    and "\<not> caught r"
  shows "fst (load_loop cfg W n cands le s) = r
       \<and> ctor_calls (snd (load_loop cfg W n cands le s)) =
           ctor_calls s @ map (call_of cfg n) (take (Suc k) cands)
       \<and> MODEL_CACHE (snd (load_loop cfg W n cands le s)) =
           (case r of Inr h \<Rightarrow> (MODEL_CACHE s)(n \<mapsto> h) | Inl e \<Rightarrow> MODEL_CACHE s)"
  using assms
proof (induction cands arbitrary: k s le)
  case Nil
  then show ?case by simp
next
  case (Cons c cands)
  show ?case
  proof (cases k)
    case 0
    with Cons.prems have "W (ctor_calls s) (call_of cfg n c) = r"
      by (simp add: attempt_outcome_0)
    from load_loop_step_other [where W = W and s = s and cfg = cfg and n = n and c = c
        and r = r and cands = cands and le = le, OF this Cons.prems(4)] 0
    show ?thesis by simp
  next
    case (Suc j)
    with Cons.prems(2) [rule_format, of 0] obtain exc
      where m: "W (ctor_calls s) (call_of cfg n c) = Inl exc" "is_ValueError exc"
      using attempt_outcome_0 [of cfg W n "ctor_calls s" c cands] by (auto simp add: caught_iff)
    from load_loop_step_caught [where W = W and s = s and cfg = cfg and n = n and c = c
      and cands = cands and le = le, OF m] obtain s3 where
      s3: "load_loop cfg W n (c # cands) le s = load_loop cfg W n cands (Some exc) s3"
        "ctor_calls s3 = ctor_calls s @ [call_of cfg n c]" "MODEL_CACHE s3 = MODEL_CACHE s"
      by blast
    have j: "j < length cands" using Cons.prems(1) Suc by simp
    have pre: "\<forall>i<j. caught (attempt_outcome cfg W n (ctor_calls s3) cands i)"
    proof (intro allI impI)
      fix i assume "i < j"
      then have "Suc i < k" using Suc by simp
      with Cons.prems(2) show "caught (attempt_outcome cfg W n (ctor_calls s3) cands i)"
        by (simp only: s3(2) attempt_outcome_Suc [symmetric])
    qed
    have at: "attempt_outcome cfg W n (ctor_calls s3) cands j = r"
      using Cons.prems(3) Suc by (simp only: s3(2) attempt_outcome_Suc [symmetric])
    from Cons.IH [OF j pre at Cons.prems(4), of "Some exc"] s3 Suc
    show ?thesis by (simp split: sum.splits)
  qed
qed

lemma load_loop_exhaust:
  assumes "\<forall>i<length cands. caught (attempt_outcome cfg W n (ctor_calls s) cands i)"
  shows "\<exists>le'. (if cands = [] then le' = le
               else attempt_outcome cfg W n (ctor_calls s) cands (length cands - 1) = Inl (the le') \<and> le' \<noteq> None)
       \<and> fst (load_loop cfg W n cands le s) = Inl (raise_after_loop n le')
       \<and> ctor_calls (snd (load_loop cfg W n cands le s)) =
           ctor_calls s @ map (call_of cfg n) cands
       \<and> MODEL_CACHE (snd (load_loop cfg W n cands le s)) = MODEL_CACHE s"
  using assms
proof (induction cands arbitrary: s le)
  case Nil
  then show ?case by simp
next
  case (Cons c cands)
  from Cons.prems [rule_format, of 0] obtain exc
    where m: "W (ctor_calls s) (call_of cfg n c) = Inl exc" "is_ValueError exc"
    using attempt_outcome_0 [of cfg W n "ctor_calls s" c cands] by (auto simp add: caught_iff)
  from load_loop_step_caught [where W = W and s = s and cfg = cfg and n = n and c = c
      and cands = cands and le = le, OF m] obtain s3 where
    s3: "load_loop cfg W n (c # cands) le s = load_loop cfg W n cands (Some exc) s3"
      "ctor_calls s3 = ctor_calls s @ [call_of cfg n c]" "MODEL_CACHE s3 = MODEL_CACHE s"
    by blast
  have pre: "\<forall>i<length cands. caught (attempt_outcome cfg W n (ctor_calls s3) cands i)"
  proof (intro allI impI)
    fix i assume "i < length cands"
    then have "Suc i < length (c # cands)" by simp
    with Cons.prems show "caught (attempt_outcome cfg W n (ctor_calls s3) cands i)"
      by (simp only: s3(2) attempt_outcome_Suc [symmetric])
  qed
  from Cons.IH [OF pre, of "Some exc"] obtain le' where
    le': "if cands = [] then le' = Some exc
          else attempt_outcome cfg W n (ctor_calls s3) cands (length cands - 1) = Inl (the le') \<and> le' \<noteq> None"
      "fst (load_loop cfg W n cands (Some exc) s3) = Inl (raise_after_loop n le')"
      "ctor_calls (snd (load_loop cfg W n cands (Some exc) s3)) = ctor_calls s3 @ map (call_of cfg n) cands"
      "MODEL_CACHE (snd (load_loop cfg W n cands (Some exc) s3)) = MODEL_CACHE s3"
    by blast
  have "attempt_outcome cfg W n (ctor_calls s) (c # cands) (length (c # cands) - 1) = Inl (the le') \<and> le' \<noteq> None"
  proof (cases cands)
    case Nil
    with le'(1) m show ?thesis by (simp add: attempt_outcome_0)
  next
    case (Cons d ds)
    then have "length (c # cands) - 1 = Suc (length cands - 1)" by simp
    with le'(1) Cons show ?thesis
      by (simp only: s3(2) attempt_outcome_Suc) simp
  qed
  with le'(2-4) s3 show ?case
    by (intro exI [of _ le']) simp
qed

text \<open>The phrases: the substring test of the code is containment.\<close>

lemma starts_with_iff: "starts_with t p = (\<exists>rest. t = p @ rest)"
  by (induction t p rule: starts_with.induct) auto

lemma str_in_iff: "str_in p t = occurs_in p t"
proof (induction t)
  case Nil
  show ?case by (auto simp add: occurs_in_def)
next
  case (Cons d t)
  have "occurs_in p (d # t) = ((\<exists>rest. d # t = p @ rest) \<or> occurs_in p t)"
  proof
    assume "occurs_in p (d # t)"
    then obtain before rest where e: "d # t = before @ p @ rest"
      by (auto simp add: occurs_in_def)
    show "(\<exists>rest. d # t = p @ rest) \<or> occurs_in p t"
    proof (cases before)
      case Nil
      with e show ?thesis by auto
    next
      case (Cons b bs)
      with e have "t = bs @ p @ rest" by simp
      then show ?thesis by (auto simp add: occurs_in_def)
    qed
  next
    assume "(\<exists>rest. d # t = p @ rest) \<or> occurs_in p t"
    then show "occurs_in p (d # t)"
    proof
      assume "\<exists>rest. d # t = p @ rest"
      then obtain rest where "d # t = [] @ p @ rest" by auto
      then show ?thesis unfolding occurs_in_def by blast
    next
      assume "occurs_in p t"
      then obtain before rest where "t = before @ p @ rest"
        by (auto simp add: occurs_in_def)
      then have "d # t = (d # before) @ p @ rest" by simp
      then show ?thesis unfolding occurs_in_def by blast
    qed
  qed
  with Cons show ?case by (simp add: starts_with_iff)
qed

lemma missing_iff:
  "missing error_text =
     (occurs_in ''not found'' error_text \<or> occurs_in ''no such file'' error_text
      \<or> occurs_in ''could not be found'' error_text)"
  by (simp add: missing_def str_in_iff)

lemma load_loop_Inr_cached:
  "load_loop cfg W n cands le s = (Inr h, s') \<Longrightarrow> MODEL_CACHE s' n = Some h"
proof (induction cands arbitrary: le s)
  case Nil
  then show ?case by simp
next
  case (Cons c cands)
  show ?case
  proof (cases "W (ctor_calls s) (n, WHISPER_DEVICE cfg, c)")
    case (Inr h')
    with Cons.prems show ?thesis
      by (auto simp add: load_loop.simps Let_def)
  next
    case (Inl e)
    show ?thesis
    proof (cases "is_ValueError e")
      case True
      with Inl Cons.prems show ?thesis
        by (auto simp add: load_loop.simps Let_def dest: Cons.IH)
    next
      case False
      with Inl Cons.prems show ?thesis
        by (simp add: load_loop.simps Let_def)
    qed
  qed
qed

lemma get_model_miss:
  assumes "MODEL_CACHE s (normalize_model_name cfg (Some model_name)) = None"
  shows "\<exists>s0. get_model cfg W model_name s =
                 load_loop cfg W (normalize_model_name cfg (Some model_name))
                   (compute_type_candidates cfg) None s0
              \<and> ctor_calls s0 = ctor_calls s \<and> MODEL_CACHE s0 = MODEL_CACHE s
              \<and> tmp_files s0 = tmp_files s \<and> unlink_calls s0 = unlink_calls s"
  using assms
  apply (simp add: get_model_def normalize_model_name_def Let_def case_prod_beta)
  apply (rule exI)
  apply (rule conjI)
   apply (rule refl)
  apply simp
  done

lemma get_model_hit:
  assumes "MODEL_CACHE s (normalize_model_name cfg (Some model_name)) = Some h"
  shows "fst (get_model cfg W model_name s) = Inr h"
    and "ctor_calls (snd (get_model cfg W model_name s)) = ctor_calls s"
    and "MODEL_CACHE (snd (get_model cfg W model_name s)) = MODEL_CACHE s"
    and "tmp_files (snd (get_model cfg W model_name s)) = tmp_files s"
    and "unlink_calls (snd (get_model cfg W model_name s)) = unlink_calls s"
  using assms
  by (simp_all add: get_model_def normalize_model_name_def Let_def case_prod_beta)

lemma example_config_fields [simp]:
  "DEFAULT_MODEL_NAME example_config = ''large-v3-turbo''"
  "WHISPER_DEVICE example_config = ''auto''"
  "WHISPER_COMPUTE_TYPE example_config = Some ''float16''"
  "WHISPER_BEAM_SIZE example_config = 5"
  by (simp_all add: example_config_def)

lemma example_candidates:
  "compute_type_candidates example_config = [''float16'', ''int8_float32'', ''int8'', ''auto'']"
  by (rule cands_float16) simp

lemma normalize_log_base:
  "normalize_model_name_log example_config (Some ''base'') = (''base'', [])"
  by (simp add: normalize_model_name_log_def str_or_def opt_or_def Let_def MODEL_ALIASES_def
        strip_eval lower_eval)

lemma normalize_base: "normalize_model_name example_config (Some ''base'') = ''base''"
  by (simp add: normalize_model_name_def normalize_log_base)

lemma get_model_FakeModel:
  "fst (get_model example_config FakeModel ''base'' empty_state) = Inr (''base'', ''auto'', ''int8_float32'')"
  "ctor_calls (snd (get_model example_config FakeModel ''base'' empty_state)) =
     [(''base'', ''auto'', ''float16''), (''base'', ''auto'', ''int8_float32'')]"
  by (simp_all add: get_model_def normalize_log_base example_candidates empty_state_def
        load_loop.simps Let_def FakeModel_def)

lemma all_attempts_caught:
  assumes "\<And>before call. \<exists>exc. W before call = Inl exc \<and> is_ValueError exc"
  shows "\<forall>i < length cands. \<exists>exc.
           attempt_outcome cfg W n before cands i = Inl exc \<and> is_ValueError exc"
  using assms by (simp add: attempt_outcome_def)

lemma get_model_exhaust:
  assumes miss: "MODEL_CACHE s (normalize_model_name cfg (Some model_name)) = None"
    and fail: "\<forall>i < length (compute_type_candidates cfg). \<exists>exc.
             attempt_outcome cfg W (normalize_model_name cfg (Some model_name)) (ctor_calls s)
               (compute_type_candidates cfg) i = Inl exc \<and> is_ValueError exc"
  shows "\<exists>final.
           attempt_outcome cfg W (normalize_model_name cfg (Some model_name)) (ctor_calls s)
             (compute_type_candidates cfg) (length (compute_type_candidates cfg) - 1) = Inl final
         \<and> is_ValueError final
         \<and> fst (get_model cfg W model_name s) =
             Inl (raise_after_loop (normalize_model_name cfg (Some model_name)) (Some final))
         \<and> ctor_calls (snd (get_model cfg W model_name s)) =
             ctor_calls s @ map (call_of cfg (normalize_model_name cfg (Some model_name)))
                              (compute_type_candidates cfg)"
proof -
  let ?n = "normalize_model_name cfg (Some model_name)"
  let ?cands = "compute_type_candidates cfg"
  from get_model_miss [OF miss, of W] obtain s0 where
    s0: "get_model cfg W model_name s = load_loop cfg W ?n ?cands None s0"
      "ctor_calls s0 = ctor_calls s"
    by blast
  from fail have fail0: "\<forall>i < length ?cands.
      caught (attempt_outcome cfg W ?n (ctor_calls s0) ?cands i)"
    by (simp only: s0(2) caught_iff)
  from load_loop_exhaust [OF fail0, of None] cands_nonempty [of cfg] obtain le' where
    le': "attempt_outcome cfg W ?n (ctor_calls s0) ?cands (length ?cands - 1) = Inl (the le')"
      "le' \<noteq> None"
      "fst (load_loop cfg W ?n ?cands None s0) = Inl (raise_after_loop ?n le')"
      "ctor_calls (snd (load_loop cfg W ?n ?cands None s0)) =
         ctor_calls s0 @ map (call_of cfg ?n) ?cands"
    by auto
  from le'(2) obtain final where final: "le' = Some final" by auto
  have "length ?cands - 1 < length ?cands" using cands_nonempty [of cfg] by simp
  with fail0 le'(1) final have "is_ValueError final" by fastforce
  with le' final s0 show ?thesis
    by (intro exI [of _ final]) simp
qed

section \<open>Loading a model: properties\<close>

text \<open>
  C1, as stated, fails: the code tests the truth value of the last error
  (\<open>if last_error:\<close>).  When every candidate fails with a falsy \<open>ValueError\<close> object
  whose message is \<open>model not found\<close>, the message contains \<open>not found\<close>, and
  \<open>get_model\<close> raises neither \<open>ModelNotAvailableError\<close> nor that error but the generic
  \<open>RuntimeError\<close>.
\<close>

theorem get_model_falsy_error_counterexample:
  "attempt_outcome example_config FalsyMissingModel ''base'' []
     (compute_type_candidates example_config) 3 = Inl (FalsyValueError ''model not found'')
   \<and> lower (exc_str (FalsyValueError ''model not found'')) = ''model '' @ ''not found'' @ []
   \<and> fst (get_model example_config FalsyMissingModel ''base'' empty_state) =
       Inl (RuntimeError (unable_message ''base''))"
proof -
  have "attempt_outcome example_config FalsyMissingModel ''base'' []
     (compute_type_candidates example_config) 3 = Inl (FalsyValueError ''model not found'')"
    by (simp add: attempt_outcome_def FalsyMissingModel_def)
  moreover have "lower (exc_str (FalsyValueError ''model not found'')) =
      ''model '' @ ''not found'' @ []"
    by (simp add: lower_eval)
  moreover have "fst (get_model example_config FalsyMissingModel ''base'' empty_state) =
       Inl (RuntimeError (unable_message ''base''))"
    by (simp add: get_model_def normalize_log_base example_candidates empty_state_def
          load_loop.simps Let_def FalsyMissingModel_def raise_after_loop_def)
  ultimately show ?thesis by (intro conjI)
qed

text \<open>
  C1, amended.  When the model is not cached and every compute-type candidate is
  attempted and fails with a \<open>ValueError\<close>, \<open>get_model\<close> raises.  If the last
  candidate's error object is truthy, it raises \<open>ModelNotAvailableError\<close> exactly when
  the lowercased message of that error contains \<open>not found\<close>, \<open>no such file\<close> or
  \<open>could not be found\<close>, and otherwise it raises that error itself.  If the last
  candidate's error object is falsy, it raises the generic \<open>RuntimeError\<close>.
\<close>

theorem get_model_all_candidates_fail:
  assumes miss: "MODEL_CACHE s (normalize_model_name cfg (Some model_name)) = None"
    and fail: "\<forall>i < length (compute_type_candidates cfg). \<exists>exc.
             attempt_outcome cfg W (normalize_model_name cfg (Some model_name)) (ctor_calls s)
               (compute_type_candidates cfg) i = Inl exc \<and> is_ValueError exc"
  shows "\<exists>final raised.
           attempt_outcome cfg W (normalize_model_name cfg (Some model_name)) (ctor_calls s)
             (compute_type_candidates cfg) (length (compute_type_candidates cfg) - 1) = Inl final
         \<and> fst (get_model cfg W model_name s) = Inl raised
         \<and> (py_bool final \<longrightarrow>
              (is_ModelNotAvailableError raised \<longleftrightarrow>
                 occurs_in ''not found'' (lower (exc_str final))
                 \<or> occurs_in ''no such file'' (lower (exc_str final))
                 \<or> occurs_in ''could not be found'' (lower (exc_str final)))
              \<and> (is_ModelNotAvailableError raised \<longrightarrow>
                   raised = ModelNotAvailableError
                     (unable_message (normalize_model_name cfg (Some model_name))
                        @ '' Model files are not available locally.'') (Some final))
              \<and> (\<not> is_ModelNotAvailableError raised \<longrightarrow> raised = final))
         \<and> (\<not> py_bool final \<longrightarrow>
              raised = RuntimeError (unable_message (normalize_model_name cfg (Some model_name))))"
proof -
  let ?n = "normalize_model_name cfg (Some model_name)"
  from get_model_exhaust [OF miss fail] obtain final where
    f: "attempt_outcome cfg W ?n (ctor_calls s) (compute_type_candidates cfg)
          (length (compute_type_candidates cfg) - 1) = Inl final"
      "is_ValueError final"
      "fst (get_model cfg W model_name s) = Inl (raise_after_loop ?n (Some final))"
    by blast
  from f(2) have nm: "\<not> is_ModelNotAvailableError final"
    by (auto simp add: is_ValueError_iff)
  have "(py_bool final \<longrightarrow>
              (is_ModelNotAvailableError (raise_after_loop ?n (Some final)) \<longleftrightarrow>
                 occurs_in ''not found'' (lower (exc_str final))
                 \<or> occurs_in ''no such file'' (lower (exc_str final))
                 \<or> occurs_in ''could not be found'' (lower (exc_str final)))
              \<and> (is_ModelNotAvailableError (raise_after_loop ?n (Some final)) \<longrightarrow>
                   raise_after_loop ?n (Some final) = ModelNotAvailableError
                     (unable_message ?n @ '' Model files are not available locally.'') (Some final))
              \<and> (\<not> is_ModelNotAvailableError (raise_after_loop ?n (Some final)) \<longrightarrow>
                   raise_after_loop ?n (Some final) = final))
         \<and> (\<not> py_bool final \<longrightarrow>
              raise_after_loop ?n (Some final) = RuntimeError (unable_message ?n))"
    using nm by (simp add: raise_after_loop_def Let_def missing_iff [symmetric])
  with f(1,3) show ?thesis by blast
qed

lemma missing_examples:
  "missing (lower ''Model file Could Not Be Found in cache'')"
  "\<not> missing (lower ''Requested compute type is unsupported'')"
  by (simp_all add: missing_def lower_eval)

theorem get_model_all_candidates_fail_witness:
  "MODEL_CACHE (empty_state :: ctor_call server_state)
      (normalize_model_name example_config (Some ''base'')) = None
   \<and> attempt_outcome example_config MissingModel ''base'' []
         (compute_type_candidates example_config) 3
       = Inl (ValueError ''Model file Could Not Be Found in cache'')
   \<and> occurs_in ''could not be found'' (lower ''Model file Could Not Be Found in cache'')
   \<and> fst (get_model example_config MissingModel ''base'' empty_state) =
        Inl (ModelNotAvailableError
               (unable_message ''base'' @ '' Model files are not available locally.'')
               (Some (ValueError ''Model file Could Not Be Found in cache'')))
   \<and> attempt_outcome example_config RejectingModel ''base'' []
         (compute_type_candidates example_config) 3
       = Inl (ValueError ''Requested compute type is unsupported'')
   \<and> \<not> occurs_in ''not found'' (lower ''Requested compute type is unsupported'')
   \<and> \<not> occurs_in ''no such file'' (lower ''Requested compute type is unsupported'')
   \<and> \<not> occurs_in ''could not be found'' (lower ''Requested compute type is unsupported'')
   \<and> fst (get_model example_config RejectingModel ''base'' empty_state) =
        Inl (ValueError ''Requested compute type is unsupported'')"
proof -
  let ?n = "normalize_model_name example_config (Some ''base'')"
  let ?cands = "compute_type_candidates example_config"
  let ?s = "empty_state :: ctor_call server_state"
  have h1: "MODEL_CACHE ?s ?n = None"
    by (simp add: empty_state_def)
  have calls: "ctor_calls ?s = []" by (simp add: empty_state_def)
  have m3: "attempt_outcome example_config MissingModel ''base'' [] ?cands 3
              = Inl (ValueError ''Model file Could Not Be Found in cache'')"
    by (simp add: attempt_outcome_def MissingModel_def)
  have r3: "attempt_outcome example_config RejectingModel ''base'' [] ?cands 3
              = Inl (ValueError ''Requested compute type is unsupported'')"
    by (simp add: attempt_outcome_def RejectingModel_def)
  have hm: "\<forall>i < length ?cands. \<exists>exc.
      attempt_outcome example_config MissingModel ?n (ctor_calls ?s) ?cands i = Inl exc
      \<and> is_ValueError exc"
    by (rule all_attempts_caught) (simp add: MissingModel_def)
  have hr: "\<forall>i < length ?cands. \<exists>exc.
      attempt_outcome example_config RejectingModel ?n (ctor_calls ?s) ?cands i = Inl exc
      \<and> is_ValueError exc"
    by (rule all_attempts_caught) (simp add: RejectingModel_def)
  have yes: "occurs_in ''could not be found'' (lower ''Model file Could Not Be Found in cache'')"
    by (simp add: str_in_iff [symmetric] lower_eval)
  have no: "\<not> occurs_in ''not found'' (lower ''Requested compute type is unsupported'')"
    "\<not> occurs_in ''no such file'' (lower ''Requested compute type is unsupported'')"
    "\<not> occurs_in ''could not be found'' (lower ''Requested compute type is unsupported'')"
    using missing_examples(2) by (simp_all add: missing_iff)
  from get_model_all_candidates_fail [OF h1 hm] obtain final raised where
    a: "attempt_outcome example_config MissingModel ?n (ctor_calls ?s) ?cands
          (length ?cands - 1) = Inl final"
      "fst (get_model example_config MissingModel ''base'' empty_state) = Inl raised"
      "py_bool final \<longrightarrow>
         (is_ModelNotAvailableError raised \<longleftrightarrow>
            occurs_in ''not found'' (lower (exc_str final))
            \<or> occurs_in ''no such file'' (lower (exc_str final))
            \<or> occurs_in ''could not be found'' (lower (exc_str final)))
         \<and> (is_ModelNotAvailableError raised \<longrightarrow>
              raised = ModelNotAvailableError
                (unable_message ?n @ '' Model files are not available locally.'') (Some final))
         \<and> (\<not> is_ModelNotAvailableError raised \<longrightarrow> raised = final)"
    by blast
  from a(1) have fa: "final = ValueError ''Model file Could Not Be Found in cache''"
    by (simp add: attempt_outcome_def MissingModel_def)
  from a(3) yes have "raised = ModelNotAvailableError
                (unable_message ?n @ '' Model files are not available locally.'') (Some final)"
    by (simp add: fa)
  with a(2) have ra: "fst (get_model example_config MissingModel ''base'' empty_state) =
        Inl (ModelNotAvailableError
               (unable_message ''base'' @ '' Model files are not available locally.'')
               (Some (ValueError ''Model file Could Not Be Found in cache'')))"
    by (simp add: fa normalize_base)
  from get_model_all_candidates_fail [OF h1 hr] obtain final' raised' where
    b: "attempt_outcome example_config RejectingModel ?n (ctor_calls ?s) ?cands
          (length ?cands - 1) = Inl final'"
      "fst (get_model example_config RejectingModel ''base'' empty_state) = Inl raised'"
      "py_bool final' \<longrightarrow>
         (is_ModelNotAvailableError raised' \<longleftrightarrow>
            occurs_in ''not found'' (lower (exc_str final'))
            \<or> occurs_in ''no such file'' (lower (exc_str final'))
            \<or> occurs_in ''could not be found'' (lower (exc_str final')))
         \<and> (is_ModelNotAvailableError raised' \<longrightarrow>
              raised' = ModelNotAvailableError
                (unable_message ?n @ '' Model files are not available locally.'') (Some final'))
         \<and> (\<not> is_ModelNotAvailableError raised' \<longrightarrow> raised' = final')"
    by blast
  from b(1) have fb: "final' = ValueError ''Requested compute type is unsupported''"
    by (simp add: attempt_outcome_def RejectingModel_def)
  from b(3) no have "raised' = final'"
    by (simp add: fb)
  with b(2) have rb: "fst (get_model example_config RejectingModel ''base'' empty_state) =
        Inl (ValueError ''Requested compute type is unsupported'')"
    by (simp add: fb)
  show ?thesis
    apply (intro conjI)
            apply (rule h1)
           apply (rule m3)
          apply (rule yes)
         apply (rule ra)
        apply (rule r3)
       apply (rule no(1))
      apply (rule no(2))
     apply (rule no(3))
    apply (rule rb)
    done
qed

text \<open>
  C2.  The candidate list of the code is the list the specification describes; for the
  configured value \<open>float16\<close> it is \<open>float16\<close>, \<open>int8_float32\<close>, \<open>int8\<close>,
  \<open>auto\<close>.  A load attempts the candidates in the order of the list, the next one
  exactly when the one before it failed with a \<open>ValueError\<close>: when candidate \<open>k\<close> is
  the first that does not fail with a \<open>ValueError\<close>, the constructor calls of the load
  are the calls for the candidates \<open>0\<close> to \<open>k\<close>, in this order; when every candidate
  fails with a \<open>ValueError\<close>, they are the calls for the whole list, in this order.
\<close>

theorem compute_type_candidates_order:
  "compute_type_candidates cfg = spec_candidates cfg
   \<and> (WHISPER_COMPUTE_TYPE cfg = Some ''float16'' \<longrightarrow>
        compute_type_candidates cfg = [''float16'', ''int8_float32'', ''int8'', ''auto''])
   \<and> (MODEL_CACHE s (normalize_model_name cfg (Some model_name)) = None \<longrightarrow>
        (\<forall>k < length (compute_type_candidates cfg).
           (\<forall>i < k. \<exists>exc.
              attempt_outcome cfg W (normalize_model_name cfg (Some model_name)) (ctor_calls s)
                (compute_type_candidates cfg) i = Inl exc \<and> is_ValueError exc)
           \<and> \<not> (\<exists>exc.
              attempt_outcome cfg W (normalize_model_name cfg (Some model_name)) (ctor_calls s)
                (compute_type_candidates cfg) k = Inl exc \<and> is_ValueError exc)
           \<longrightarrow> ctor_calls (snd (get_model cfg W model_name s)) =
                 ctor_calls s @ map (call_of cfg (normalize_model_name cfg (Some model_name)))
                                  (take (Suc k) (compute_type_candidates cfg)))
        \<and> ((\<forall>i < length (compute_type_candidates cfg). \<exists>exc.
              attempt_outcome cfg W (normalize_model_name cfg (Some model_name)) (ctor_calls s)
                (compute_type_candidates cfg) i = Inl exc \<and> is_ValueError exc)
           \<longrightarrow> ctor_calls (snd (get_model cfg W model_name s)) =
                 ctor_calls s @ map (call_of cfg (normalize_model_name cfg (Some model_name)))
                                  (compute_type_candidates cfg)))"
proof (intro conjI impI allI)
  show "compute_type_candidates cfg = spec_candidates cfg" by (rule cands_eq)
next
  assume "WHISPER_COMPUTE_TYPE cfg = Some ''float16''"
  then show "compute_type_candidates cfg = [''float16'', ''int8_float32'', ''int8'', ''auto'']"
    by (rule cands_float16)
next
  let ?n = "normalize_model_name cfg (Some model_name)"
  let ?cands = "compute_type_candidates cfg"
  fix k
  assume miss: "MODEL_CACHE s ?n = None" and k: "k < length ?cands"
    and stop: "(\<forall>i < k. \<exists>exc.
              attempt_outcome cfg W ?n (ctor_calls s) ?cands i = Inl exc \<and> is_ValueError exc)
           \<and> \<not> (\<exists>exc.
              attempt_outcome cfg W ?n (ctor_calls s) ?cands k = Inl exc \<and> is_ValueError exc)"
  from get_model_miss [OF miss, of W] obtain s0 where
    s0: "get_model cfg W model_name s = load_loop cfg W ?n ?cands None s0"
      "ctor_calls s0 = ctor_calls s"
    by blast
  from stop have b: "\<forall>i<k. caught (attempt_outcome cfg W ?n (ctor_calls s0) ?cands i)"
    by (simp add: s0(2) caught_iff)
  from stop have o: "\<not> caught (attempt_outcome cfg W ?n (ctor_calls s0) ?cands k)"
    by (simp add: s0(2) caught_iff)
  from load_loop_stop [OF k b refl o, of None] s0
  show "ctor_calls (snd (get_model cfg W model_name s)) =
          ctor_calls s @ map (call_of cfg ?n) (take (Suc k) ?cands)"
    by simp
next
  let ?n = "normalize_model_name cfg (Some model_name)"
  let ?cands = "compute_type_candidates cfg"
  assume miss: "MODEL_CACHE s ?n = None"
    and fail: "\<forall>i < length ?cands. \<exists>exc.
              attempt_outcome cfg W ?n (ctor_calls s) ?cands i = Inl exc \<and> is_ValueError exc"
  from get_model_exhaust [OF miss fail]
  show "ctor_calls (snd (get_model cfg W model_name s)) =
          ctor_calls s @ map (call_of cfg ?n) ?cands"
    by blast
qed

theorem compute_type_candidates_order_witness:
  "WHISPER_COMPUTE_TYPE example_config = Some ''float16''
   \<and> MODEL_CACHE (empty_state :: ctor_call server_state)
        (normalize_model_name example_config (Some ''base'')) = None
   \<and> compute_type_candidates example_config = [''float16'', ''int8_float32'', ''int8'', ''auto'']
   \<and> spec_candidates example_config = [''float16'', ''int8_float32'', ''int8'', ''auto'']
   \<and> attempt_outcome example_config FakeModel ''base'' []
        [''float16'', ''int8_float32'', ''int8'', ''auto''] 0 =
        Inl (ValueError ''float16 unsupported'')
   \<and> attempt_outcome example_config FakeModel ''base'' []
        [''float16'', ''int8_float32'', ''int8'', ''auto''] 1 =
        Inr (''base'', ''auto'', ''int8_float32'')
   \<and> ctor_calls (snd (get_model example_config FakeModel ''base'' empty_state)) =
        [(''base'', ''auto'', ''float16''), (''base'', ''auto'', ''int8_float32'')]
   \<and> ctor_calls (snd (get_model example_config MissingModel ''base'' empty_state)) =
        [(''base'', ''auto'', ''float16''), (''base'', ''auto'', ''int8_float32''),
         (''base'', ''auto'', ''int8''), (''base'', ''auto'', ''auto'')]"
proof -
  let ?n = "normalize_model_name example_config (Some ''base'')"
  let ?cands = "compute_type_candidates example_config"
  let ?s = "empty_state :: ctor_call server_state"
  have h1: "WHISPER_COMPUTE_TYPE example_config = Some ''float16''" by simp
  have h2: "MODEL_CACHE ?s ?n = None" by (simp add: empty_state_def)
  have calls: "ctor_calls ?s = []" by (simp add: empty_state_def)
  have a0: "attempt_outcome example_config FakeModel ''base'' []
        [''float16'', ''int8_float32'', ''int8'', ''auto''] 0 =
        Inl (ValueError ''float16 unsupported'')"
    by (simp add: attempt_outcome_def FakeModel_def call_of_def)
  have a1: "attempt_outcome example_config FakeModel ''base'' []
        [''float16'', ''int8_float32'', ''int8'', ''auto''] 1 =
        Inr (''base'', ''auto'', ''int8_float32'')"
    by (simp add: attempt_outcome_def FakeModel_def call_of_def)
  note t = compute_type_candidates_order [of example_config ?s "''base''"]
  have c1: "?cands = spec_candidates example_config"
    using t [of FakeModel] by (rule conjunct1)
  have c2: "?cands = [''float16'', ''int8_float32'', ''int8'', ''auto'']"
    using t [of FakeModel, THEN conjunct2, THEN conjunct1] h1 by (rule mp)
  have one: "(1 :: nat) < length ?cands" by (simp add: c2)
  have before: "\<forall>i < 1. \<exists>exc.
      attempt_outcome example_config FakeModel ?n (ctor_calls ?s) ?cands i = Inl exc
      \<and> is_ValueError exc"
    using a0 by (simp add: c2 calls normalize_base)
  have stop: "\<not> (\<exists>exc.
      attempt_outcome example_config FakeModel ?n (ctor_calls ?s) ?cands 1 = Inl exc
      \<and> is_ValueError exc)"
    using a1 by (simp add: c2 calls normalize_base)
  from t [of FakeModel, THEN conjunct2, THEN conjunct2, THEN mp, OF h2, THEN conjunct1,
          rule_format, of 1] one before stop
  have "ctor_calls (snd (get_model example_config FakeModel ''base'' empty_state)) =
          ctor_calls ?s @ map (call_of example_config ?n) (take (Suc 1) ?cands)"
    by blast
  then have f: "ctor_calls (snd (get_model example_config FakeModel ''base'' empty_state)) =
        [(''base'', ''auto'', ''float16''), (''base'', ''auto'', ''int8_float32'')]"
    by (simp add: c2 calls normalize_base call_of_def)
  have hm: "\<forall>i < length ?cands. \<exists>exc.
      attempt_outcome example_config MissingModel ?n (ctor_calls ?s) ?cands i = Inl exc
      \<and> is_ValueError exc"
    by (rule all_attempts_caught) (simp add: MissingModel_def)
  from t [of MissingModel, THEN conjunct2, THEN conjunct2, THEN mp, OF h2, THEN conjunct2,
          THEN mp, OF hm]
  have m: "ctor_calls (snd (get_model example_config MissingModel ''base'' empty_state)) =
        [(''base'', ''auto'', ''float16''), (''base'', ''auto'', ''int8_float32''),
         (''base'', ''auto'', ''int8''), (''base'', ''auto'', ''auto'')]"
    by (simp add: c2 calls normalize_base call_of_def)
  show ?thesis
    apply (intro conjI)
           apply (rule h1)
          apply (rule h2)
         apply (rule c2)
        apply (simp only: c1 [symmetric] c2)
       apply (rule a0)
      apply (rule a1)
     apply (rule f)
    apply (rule m)
    done
qed

text \<open>
  C3.  After a \<open>get_model\<close> call that returned a handle, the handle is stored under the
  normalised name, and a second call for the same name returns that handle, makes no
  constructor call (whatever the constructor would do) and leaves the cache as it is.
\<close>

theorem get_model_cache_hit:
  assumes "get_model cfg W model_name s = (Inr model, s')"
  shows "MODEL_CACHE s' (normalize_model_name cfg (Some model_name)) = Some model
       \<and> fst (get_model cfg W' model_name s') = Inr model
       \<and> ctor_calls (snd (get_model cfg W' model_name s')) = ctor_calls s'
       \<and> MODEL_CACHE (snd (get_model cfg W' model_name s')) = MODEL_CACHE s'"
proof -
  let ?n = "normalize_model_name cfg (Some model_name)"
  have stored: "MODEL_CACHE s' ?n = Some model"
  proof (cases "MODEL_CACHE s ?n")
    case None
    from get_model_miss [OF None, of W] obtain s0 where
      "get_model cfg W model_name s = load_loop cfg W ?n (compute_type_candidates cfg) None s0"
      by blast
    with assms show ?thesis by (auto dest: load_loop_Inr_cached)
  next
    case (Some h)
    from get_model_hit(1,3) [OF Some, of W] assms show ?thesis
      using Some by simp
  qed
  from get_model_hit(1-3) [OF stored, of W'] stored show ?thesis by simp
qed

theorem get_model_cache_hit_witness:
  "get_model example_config FakeModel ''base'' empty_state =
     (Inr (''base'', ''auto'', ''int8_float32''),
      snd (get_model example_config FakeModel ''base'' empty_state))
   \<and> MODEL_CACHE (snd (get_model example_config FakeModel ''base'' empty_state)) ''base'' =
       Some (''base'', ''auto'', ''int8_float32'')
   \<and> fst (get_model example_config NeverCalled ''base''
             (snd (get_model example_config FakeModel ''base'' empty_state))) =
       Inr (''base'', ''auto'', ''int8_float32'')
   \<and> ctor_calls (snd (get_model example_config NeverCalled ''base''
                          (snd (get_model example_config FakeModel ''base'' empty_state)))) =
       [(''base'', ''auto'', ''float16''), (''base'', ''auto'', ''int8_float32'')]"
proof -
  have h: "get_model example_config FakeModel ''base'' empty_state =
     (Inr (''base'', ''auto'', ''int8_float32''),
      snd (get_model example_config FakeModel ''base'' empty_state))"
    using get_model_FakeModel(1) by (simp add: prod_eq_iff)
  from get_model_cache_hit [OF h, of NeverCalled] h show ?thesis
    by (simp add: normalize_base get_model_FakeModel(2))
qed

text \<open>
  C7.  In a load, when the candidates in front of candidate \<open>k\<close> fail with
  \<open>ValueError\<close> (truthy or falsy) and candidate \<open>k\<close> fails with an exception that is not a
  \<open>ValueError\<close>, \<open>get_model\<close> raises that exception, the constructor has been called
  for the candidates up to \<open>k\<close> and for no later one, and nothing is cached.
\<close>

theorem get_model_other_exception_propagates:
  assumes miss: "MODEL_CACHE s (normalize_model_name cfg (Some model_name)) = None"
    and k: "k < length (compute_type_candidates cfg)"
    and before: "\<forall>i < k. \<exists>m.
             attempt_outcome cfg W (normalize_model_name cfg (Some model_name)) (ctor_calls s)
               (compute_type_candidates cfg) i = Inl (ValueError m)
             \<or> attempt_outcome cfg W (normalize_model_name cfg (Some model_name)) (ctor_calls s)
                 (compute_type_candidates cfg) i = Inl (FalsyValueError m)"
    and raised: "attempt_outcome cfg W (normalize_model_name cfg (Some model_name)) (ctor_calls s)
               (compute_type_candidates cfg) k = Inl exc"
    and other: "\<not> is_ValueError exc"
  shows "fst (get_model cfg W model_name s) = Inl exc
       \<and> ctor_calls (snd (get_model cfg W model_name s)) =
           ctor_calls s @ map (call_of cfg (normalize_model_name cfg (Some model_name)))
                            (take (Suc k) (compute_type_candidates cfg))
       \<and> MODEL_CACHE (snd (get_model cfg W model_name s)) = MODEL_CACHE s"
proof -
  let ?n = "normalize_model_name cfg (Some model_name)"
  let ?cands = "compute_type_candidates cfg"
  from get_model_miss [OF miss, of W] obtain s0 where
    s0: "get_model cfg W model_name s = load_loop cfg W ?n ?cands None s0"
      "ctor_calls s0 = ctor_calls s" "MODEL_CACHE s0 = MODEL_CACHE s"
    by blast
  have b0: "\<forall>i < k. caught (attempt_outcome cfg W ?n (ctor_calls s0) ?cands i)"
  proof (intro allI impI)
    fix i assume "i < k"
    with before obtain m where
      "attempt_outcome cfg W ?n (ctor_calls s0) ?cands i = Inl (ValueError m)
       \<or> attempt_outcome cfg W ?n (ctor_calls s0) ?cands i = Inl (FalsyValueError m)"
      unfolding s0(2) by blast
    then show "caught (attempt_outcome cfg W ?n (ctor_calls s0) ?cands i)"
      by auto
  qed
  from raised have r0: "attempt_outcome cfg W ?n (ctor_calls s0) ?cands k = Inl exc"
    by (simp only: s0(2))
  from other have o: "\<not> caught (Inl exc :: py_exception + 'a)"
    by simp
  from load_loop_stop [OF k b0 r0 o, of None] s0 show ?thesis by simp
qed

theorem get_model_other_exception_propagates_witness:
  "MODEL_CACHE (empty_state :: ctor_call server_state)
      (normalize_model_name example_config (Some ''base'')) = None
   \<and> 1 < length (compute_type_candidates example_config)
   \<and> attempt_outcome example_config BrokenModel
        (normalize_model_name example_config (Some ''base''))
        (ctor_calls (empty_state :: ctor_call server_state)) (compute_type_candidates example_config) 0
        = Inl (ValueError ''float16 unsupported'')
   \<and> attempt_outcome example_config BrokenModel
        (normalize_model_name example_config (Some ''base''))
        (ctor_calls (empty_state :: ctor_call server_state)) (compute_type_candidates example_config) 1
        = Inl (OSError ''model.bin not found'')
   \<and> \<not> is_ValueError (OSError ''model.bin not found'')
   \<and> fst (get_model example_config BrokenModel ''base'' empty_state) =
        Inl (OSError ''model.bin not found'')
   \<and> ctor_calls (snd (get_model example_config BrokenModel ''base'' empty_state)) =
        [(''base'', ''auto'', ''float16''), (''base'', ''auto'', ''int8_float32'')]
   \<and> MODEL_CACHE (snd (get_model example_config BrokenModel ''base'' empty_state)) = Map.empty"
proof -
  have h1: "MODEL_CACHE (empty_state :: ctor_call server_state)
      (normalize_model_name example_config (Some ''base'')) = None"
    by (simp add: empty_state_def)
  have h2: "1 < length (compute_type_candidates example_config)"
    by (simp add: example_candidates)
  have h3: "\<forall>i < 1. \<exists>m.
         attempt_outcome example_config BrokenModel
           (normalize_model_name example_config (Some ''base''))
           (ctor_calls (empty_state :: ctor_call server_state)) (compute_type_candidates example_config) i
           = Inl (ValueError m)
         \<or> attempt_outcome example_config BrokenModel
             (normalize_model_name example_config (Some ''base''))
             (ctor_calls (empty_state :: ctor_call server_state)) (compute_type_candidates example_config) i
             = Inl (FalsyValueError m)"
    by (simp add: attempt_outcome_def BrokenModel_def example_candidates call_of_def)
  have h4: "attempt_outcome example_config BrokenModel
        (normalize_model_name example_config (Some ''base''))
        (ctor_calls (empty_state :: ctor_call server_state)) (compute_type_candidates example_config) 1
        = Inl (OSError ''model.bin not found'')"
    by (simp add: attempt_outcome_def BrokenModel_def example_candidates call_of_def)
  have h5: "\<not> is_ValueError (OSError ''model.bin not found'')" by simp
  from get_model_other_exception_propagates [OF h1 h2 h3 h4 h5]
  have "fst (get_model example_config BrokenModel ''base'' empty_state) =
        Inl (OSError ''model.bin not found'')
   \<and> ctor_calls (snd (get_model example_config BrokenModel ''base'' empty_state)) =
        [(''base'', ''auto'', ''float16''), (''base'', ''auto'', ''int8_float32'')]
   \<and> MODEL_CACHE (snd (get_model example_config BrokenModel ''base'' empty_state)) = Map.empty"
    by (simp add: normalize_base example_candidates call_of_def empty_state_def)
  moreover have "attempt_outcome example_config BrokenModel
        (normalize_model_name example_config (Some ''base''))
        (ctor_calls (empty_state :: ctor_call server_state)) (compute_type_candidates example_config) 0
        = Inl (ValueError ''float16 unsupported'')"
    by (simp add: attempt_outcome_def BrokenModel_def example_candidates call_of_def)
  ultimately show ?thesis using h1 h2 h4 h5 by blast
qed

section \<open>Transcription: properties\<close>

lemma collect_segments_text:
  "snd (collect_segments index yielded segments collected_text) =
     collected_text @ filter (\<lambda>t. t \<noteq> [])
                        (map (\<lambda>segment. strip (opt_or (seg_text segment) [])) yielded)"
  by (induction yielded arbitrary: index segments collected_text) (simp_all add: Let_def)

lemma collect_segments_raw_text:
  "map dict_text (fst (collect_segments index yielded segments collected_text)) =
     map dict_text segments @ map seg_text yielded"
  by (induction yielded arbitrary: index segments collected_text) (simp_all add: Let_def)

lemma collect_segments_ids:
  "map dict_id (fst (collect_segments index yielded segments collected_text)) =
     map dict_id segments @ [index ..< index + length yielded]"
proof (induction yielded arbitrary: index segments collected_text)
  case Nil
  then show ?case by simp
next
  case (Cons segment rest)
  let ?d = "\<lparr>dict_id = index, dict_seek = 0, dict_start = seg_start segment,
              dict_end = seg_end segment, dict_text = seg_text segment,
              dict_tokens = seg_tokens segment, dict_temperature = 0,
              dict_avg_logprob = seg_avg_logprob segment,
              dict_compression_ratio = seg_compression_ratio segment,
              dict_no_speech_prob = seg_no_speech_prob segment\<rparr>"
  let ?c = "if strip (opt_or (seg_text segment) []) \<noteq> []
            then collected_text @ [strip (opt_or (seg_text segment) [])] else collected_text"
  have upt: "[index ..< index + length (segment # rest)] =
               index # [Suc index ..< Suc index + length rest]"
    using upt_conv_Cons [of index "index + length (segment # rest)"] by simp
  have "collect_segments index (segment # rest) segments collected_text =
          collect_segments (Suc index) rest (segments @ [?d]) ?c"
    by (simp add: Let_def)
  then have "map dict_id (fst (collect_segments index (segment # rest) segments collected_text)) =
          map dict_id (segments @ [?d]) @ [Suc index ..< Suc index + length rest]"
    by (simp only: Cons.IH)
  also have "\<dots> = map dict_id segments @ (index # [Suc index ..< Suc index + length rest])"
    by simp
  finally show ?case by (simp only: upt)
qed

lemma spec_full_text_stub: "spec_full_text stub_segments = ''Hello world.''"
  by (simp add: spec_full_text_def stub_segments_def opt_or_def str_or_def strip_eval)

lemma stub_segments_fields:
  "map seg_text stub_segments = [Some '' Hello '', Some ''   '', None, Some ''world. '']"
  "length stub_segments = 4"
  by (simp_all add: stub_segments_def)

text \<open>
  C6.  When the model is loaded and the generator yields its segments and ends, the full
  text \<open>run_transcription\<close> returns is the space-joined trimmed texts of the segments
  whose trimmed text is non-empty, trimmed as a whole; each segment keeps its raw text
  and gets its position as \<open>id\<close>.
\<close>

theorem run_transcription_full_text:
  assumes "get_model cfg W model_name s = (Inr model, s1)"
    and "T model audio_path (WHISPER_BEAM_SIZE cfg) = Inr (yielded, None)"
  shows "\<exists>segments.
           run_transcription cfg W T audio_path model_name s =
             (Inr (spec_full_text yielded, segments), s1)
         \<and> map dict_text segments = map seg_text yielded
         \<and> map dict_id segments = [0 ..< length yielded]"
proof -
  obtain segments collected_text where
    c: "collect_segments 0 yielded [] [] = (segments, collected_text)"
    by fastforce
  from collect_segments_text [of 0 yielded "[]" "[]"] c
  have t: "collected_text = filter (\<lambda>t. t \<noteq> [])
             (map (\<lambda>segment. strip (opt_or (seg_text segment) [])) yielded)"
    by simp
  from collect_segments_raw_text [of 0 yielded "[]" "[]"] c
  have r: "map dict_text segments = map seg_text yielded" by simp
  from collect_segments_ids [of 0 yielded "[]" "[]"] c
  have i: "map dict_id segments = [0 ..< length yielded]" by simp
  from assms c t have "run_transcription cfg W T audio_path model_name s =
             (Inr (spec_full_text yielded, segments), s1)"
    by (simp add: run_transcription_def spec_full_text_def Let_def)
  with r i show ?thesis by blast
qed

theorem run_transcription_full_text_witness:
  "\<exists>segments.
     fst (run_transcription example_config FakeModel StubTranscribe ''/tmp/tmpa1.mp3'' ''base''
            empty_state) = Inr (''Hello world.'', segments)
     \<and> map dict_text segments = [Some '' Hello '', Some ''   '', None, Some ''world. '']
     \<and> map dict_id segments = [0 ..< 4]"
proof -
  have h1: "get_model example_config FakeModel ''base'' empty_state =
     (Inr (''base'', ''auto'', ''int8_float32''),
      snd (get_model example_config FakeModel ''base'' empty_state))"
    using get_model_FakeModel(1) by (simp add: prod_eq_iff)
  have h2: "StubTranscribe (''base'', ''auto'', ''int8_float32'') ''/tmp/tmpa1.mp3''
              (WHISPER_BEAM_SIZE example_config) = Inr (stub_segments, None)"
    by (simp add: StubTranscribe_def)
  from run_transcription_full_text [where cfg = example_config and W = FakeModel
      and T = StubTranscribe and model_name = "''base''" and s = empty_state
      and audio_path = "''/tmp/tmpa1.mp3''" and model = "(''base'', ''auto'', ''int8_float32'')"
      and ?s1.0 = "snd (get_model example_config FakeModel ''base'' empty_state)"
      and yielded = stub_segments, OF h1 h2]
  obtain segments where
    all: "run_transcription example_config FakeModel StubTranscribe ''/tmp/tmpa1.mp3'' ''base''
            empty_state =
            (Inr (spec_full_text stub_segments, segments),
             snd (get_model example_config FakeModel ''base'' empty_state))
          \<and> map dict_text segments = map seg_text stub_segments
          \<and> map dict_id segments = [0 ..< length stub_segments]" ..
  from all have "fst (run_transcription example_config FakeModel StubTranscribe
       ''/tmp/tmpa1.mp3'' ''base'' empty_state) = Inr (''Hello world.'', segments)"
    by (simp only: spec_full_text_stub fst_conv)
  moreover from all have "map dict_text segments =
      [Some '' Hello '', Some ''   '', None, Some ''world. '']"
    by (simp only: stub_segments_fields)
  moreover from all have "map dict_id segments = [0 ..< 4]"
    by (simp add: stub_segments_fields)
  ultimately show ?thesis by (intro exI conjI)
qed

section \<open>Loading does not depend on the log or the files\<close>

lemma same_models_refl [simp]: "same_models s s"
  by (simp add: same_models_def)

lemma same_models_logger [simp]:
  "same_models (logger level fmt args s) s' = same_models s s'"
  "same_models s (logger level fmt args s') = same_models s s'"
  by (simp_all add: same_models_def)

lemma load_loop_frame:
  assumes "same_models s s'"
  shows "fst (load_loop cfg W n cands le s) = fst (load_loop cfg W n cands le s')
       \<and> same_models (snd (load_loop cfg W n cands le s)) (snd (load_loop cfg W n cands le s'))"
  using assms
proof (induction cands arbitrary: le s s')
  case Nil
  then show ?case by simp
next
  case (Cons c cands)
  from Cons.prems have cc: "ctor_calls s = ctor_calls s'" and mc: "MODEL_CACHE s = MODEL_CACHE s'"
    by (simp_all add: same_models_def)
  show ?case
  proof (cases "caught (W (ctor_calls s) (call_of cfg n c))")
    case True
    then obtain exc where m: "W (ctor_calls s) (call_of cfg n c) = Inl exc" "is_ValueError exc"
      by (auto simp add: caught_iff)
    then have m': "W (ctor_calls s') (call_of cfg n c) = Inl exc" by (simp only: cc)
    from load_loop_step_caught [where W = W and s = s and cfg = cfg and n = n and c = c
      and cands = cands and le = le, OF m] obtain s3 where
      s3: "load_loop cfg W n (c # cands) le s = load_loop cfg W n cands (Some exc) s3"
        "ctor_calls s3 = ctor_calls s @ [call_of cfg n c]" "MODEL_CACHE s3 = MODEL_CACHE s"
      by blast
    from load_loop_step_caught [where W = W and s = s' and cfg = cfg and n = n and c = c
      and cands = cands and le = le, OF m' m(2)] obtain s3' where
      s3': "load_loop cfg W n (c # cands) le s' = load_loop cfg W n cands (Some exc) s3'"
        "ctor_calls s3' = ctor_calls s' @ [call_of cfg n c]" "MODEL_CACHE s3' = MODEL_CACHE s'"
      by blast
    have "same_models s3 s3'" using s3(2,3) s3'(2,3) cc mc by (simp add: same_models_def)
    from Cons.IH [OF this, of "Some exc"] show ?thesis
      by (simp only: s3(1) s3'(1))
  next
    case False
    then have o': "\<not> caught (W (ctor_calls s') (call_of cfg n c))"
      using cc by simp
    note a = load_loop_step_other [where W = W and s = s and cfg = cfg and n = n and c = c
        and cands = cands and le = le, OF refl False]
    note b = load_loop_step_other [where W = W and s = s' and cfg = cfg and n = n and c = c
        and cands = cands and le = le, OF refl o']
    show ?thesis
      by (simp add: a b same_models_def cc mc split: sum.splits)
  qed
qed

lemma get_model_frame:
  assumes "same_models s s'"
  shows "fst (get_model cfg W model_name s) = fst (get_model cfg W model_name s')
       \<and> same_models (snd (get_model cfg W model_name s)) (snd (get_model cfg W model_name s'))"
proof -
  let ?n = "fst (normalize_model_name_log cfg (Some model_name))"
  let ?r = "snd (normalize_model_name_log cfg (Some model_name))"
  have sm: "same_models (s\<lparr>logged := logged s @ ?r\<rparr>) (s'\<lparr>logged := logged s' @ ?r\<rparr>)"
    using assms by (simp add: same_models_def)
  from assms have mc: "MODEL_CACHE s = MODEL_CACHE s'" by (simp add: same_models_def)
  show ?thesis
  proof (cases "MODEL_CACHE s ?n")
    case None
    with mc load_loop_frame [OF sm, of cfg W ?n "compute_type_candidates cfg" None]
    show ?thesis
      by (simp add: get_model_def Let_def case_prod_beta)
  next
    case (Some h)
    with mc sm show ?thesis
      by (simp add: get_model_def Let_def case_prod_beta)
  qed
qed

lemma run_transcription_frame:
  assumes "same_models s s'"
  shows "fst (run_transcription cfg W T audio_path model_name s) =
           fst (run_transcription cfg W T audio_path model_name s')
       \<and> same_models (snd (run_transcription cfg W T audio_path model_name s))
                     (snd (run_transcription cfg W T audio_path model_name s'))"
proof -
  obtain r s1 where a: "get_model cfg W model_name s = (r, s1)" by fastforce
  obtain r' s1' where b: "get_model cfg W model_name s' = (r', s1')" by fastforce
  from get_model_frame [OF assms, of cfg W model_name] a b
  have "r = r'" "same_models s1 s1'" by simp_all
  with a b show ?thesis
    by (simp add: run_transcription_def Let_def case_prod_beta split: sum.splits option.splits)
qed

section \<open>The endpoint: properties\<close>

lemma load_loop_files:
  "tmp_files (snd (load_loop cfg W n cands le s)) = tmp_files s
   \<and> unlink_calls (snd (load_loop cfg W n cands le s)) = unlink_calls s"
proof (induction cands arbitrary: le s)
  case Nil
  then show ?case by simp
next
  case (Cons c cands)
  show ?case
  proof (cases "W (ctor_calls s) (n, WHISPER_DEVICE cfg, c)")
    case (Inr h)
    then show ?thesis by (simp add: load_loop.simps Let_def)
  next
    case (Inl e)
    then show ?thesis by (simp add: load_loop.simps Let_def Cons.IH)
  qed
qed

lemma get_model_files:
  "tmp_files (snd (get_model cfg W model_name s)) = tmp_files s
   \<and> unlink_calls (snd (get_model cfg W model_name s)) = unlink_calls s"
  by (simp add: get_model_def Let_def case_prod_beta load_loop_files split: option.splits)

lemma run_transcription_files:
  "tmp_files (snd (run_transcription cfg W T audio_path model_name s)) = tmp_files s
   \<and> unlink_calls (snd (run_transcription cfg W T audio_path model_name s)) = unlink_calls s"
proof -
  obtain r s1 where a: "get_model cfg W model_name s = (r, s1)" by fastforce
  with get_model_files [of cfg W model_name s]
  have "tmp_files s1 = tmp_files s" "unlink_calls s1 = unlink_calls s" by simp_all
  with a show ?thesis
    by (simp add: run_transcription_def Let_def case_prod_beta split: sum.splits option.splits)
qed

lemma finally_unlink_fields [simp]:
  "MODEL_CACHE (finally_unlink env temp_path s) = MODEL_CACHE s"
  "ctor_calls (finally_unlink env temp_path s) = ctor_calls s"
  "unlink_calls (finally_unlink env temp_path s) = unlink_calls s @ [temp_path]"
  "tmp_files (finally_unlink env temp_path s) =
     (if unlink_fails env then tmp_files s else tmp_files s - {temp_path})"
  by (simp_all add: finally_unlink_def Let_def)

lemma try_transcription_response:
  "fst (try_transcription cfg W T env file_name temp_path model s) =
     (case fst (run_transcription cfg W T temp_path model s) of
        Inr (full_text, segments) \<Rightarrow>
          Returned \<lparr>payload_id = ''transcription-'' @ uuid_hex env,
                    payload_object = ''transcription'',
                    payload_created = time_now env,
                    payload_model = model,
                    payload_text = full_text,
                    payload_segments = segments\<rparr>
      | Inl exc \<Rightarrow>
          if is_ModelNotAvailableError exc
          then HTTPException 503
                 (''Model '' @ [CHR 0x27] @ model @ [CHR 0x27]
                    @ '' is not available locally. Download it before retrying.'')
          else HTTPException 500 ''Whisper transcription failed.'')"
  by (simp add: try_transcription_def Let_def split: prod.splits sum.splits)

lemma try_transcription_unlink_calls:
  "unlink_calls (snd (try_transcription cfg W T env file_name temp_path model s)) =
     unlink_calls s @ [temp_path]"
proof -
  obtain r s1 where a: "run_transcription cfg W T temp_path model s = (r, s1)" by fastforce
  with run_transcription_files [of cfg W T temp_path model s]
  have "unlink_calls s1 = unlink_calls s" by simp
  with a show ?thesis
    by (simp add: try_transcription_def Let_def split: prod.splits sum.splits)
qed

lemma create_transcription_reached:
  assumes "reaches_transcription env req temp_path"
  shows "\<exists>s3. create_transcription cfg W T env req s =
                 try_transcription cfg W T env (opt_or (filename req) []) temp_path
                   (selected_model cfg req) s3
              \<and> same_models s3 s
              \<and> tmp_files s3 = insert temp_path (tmp_files s)
              \<and> unlink_calls s3 = unlink_calls s"
  using assms
  apply (simp add: reaches_transcription_def create_transcription_def selected_model_def
      normalize_model_name_def Let_def case_prod_beta split: sum.splits)
  apply (rule exI)
  apply (rule conjI)
   apply (rule refl)
  apply (simp add: same_models_def)
  done

lemma get_model_MissingModel:
  "fst (get_model example_config MissingModel ''base'' empty_state) =
     Inl (ModelNotAvailableError
            (unable_message ''base'' @ '' Model files are not available locally.'')
            (Some (ValueError ''Model file Could Not Be Found in cache'')))"
  by (simp add: get_model_def normalize_log_base example_candidates empty_state_def
        load_loop.simps Let_def MissingModel_def raise_after_loop_def missing_def lower_eval)

lemma get_model_BrokenModel:
  "fst (get_model example_config BrokenModel ''base'' empty_state) =
     Inl (OSError ''model.bin not found'')"
  by (simp add: get_model_def normalize_log_base example_candidates empty_state_def
        load_loop.simps Let_def BrokenModel_def)

lemma run_transcription_get_model_raises:
  "fst (get_model cfg W model_name s) = Inl exc \<Longrightarrow>
     fst (run_transcription cfg W T audio_path model_name s) = Inl exc"
  by (cases "get_model cfg W model_name s") (simp add: run_transcription_def)

lemma upload_request_reaches:
  "reaches_transcription working_io upload_request ''/tmp/tmpa1.mp3''"
  by (simp add: reaches_transcription_def working_io_def upload_request_def opt_or_def
        str_or_def)

lemma selected_model_upload: "selected_model example_config upload_request = ''base''"
  by (simp add: selected_model_def upload_request_def opt_or_opt_def normalize_base)

text \<open>
  C4.  For a request that reaches the transcription: when the transcription raises
  \<open>ModelNotAvailableError\<close> the handler answers 503 with a detail that names the
  resolved model, and when it raises any other exception the handler answers 500 with
  a fixed detail, the same for every exception.
\<close>

theorem create_transcription_failure_mapping:
  assumes "reaches_transcription env req temp_path"
    and "fst (run_transcription cfg W T temp_path (selected_model cfg req) s) = Inl exc"
  shows "fst (create_transcription cfg W T env req s) =
           (if is_ModelNotAvailableError exc
            then HTTPException 503
                   (''Model '' @ [CHR 0x27] @ selected_model cfg req @ [CHR 0x27]
                      @ '' is not available locally. Download it before retrying.'')
            else HTTPException 500 ''Whisper transcription failed.'')"
proof -
  from create_transcription_reached [OF assms(1), of cfg W T s] obtain s3 where
    s3: "create_transcription cfg W T env req s =
           try_transcription cfg W T env (opt_or (filename req) []) temp_path
             (selected_model cfg req) s3"
      "same_models s3 s"
    by blast
  from run_transcription_frame [OF s3(2), of cfg W T temp_path "selected_model cfg req"] assms(2)
  have "fst (run_transcription cfg W T temp_path (selected_model cfg req) s3) = Inl exc"
    by simp
  then show ?thesis
    by (simp only: s3(1) try_transcription_response sum.case)
qed

theorem create_transcription_failure_mapping_witness:
  "reaches_transcription working_io upload_request ''/tmp/tmpa1.mp3''
   \<and> fst (create_transcription example_config MissingModel StubTranscribe working_io
            upload_request empty_state) =
       HTTPException 503
         (''Model '' @ [CHR 0x27] @ ''base'' @ [CHR 0x27]
            @ '' is not available locally. Download it before retrying.'')
   \<and> fst (create_transcription example_config BrokenModel StubTranscribe working_io
            upload_request empty_state) =
       HTTPException 500 ''Whisper transcription failed.''"
proof -
  have m: "fst (run_transcription example_config MissingModel StubTranscribe ''/tmp/tmpa1.mp3''
                 (selected_model example_config upload_request) empty_state) =
             Inl (ModelNotAvailableError
                    (unable_message ''base'' @ '' Model files are not available locally.'')
                    (Some (ValueError ''Model file Could Not Be Found in cache'')))"
    by (simp only: selected_model_upload run_transcription_get_model_raises [OF get_model_MissingModel])
  have b: "fst (run_transcription example_config BrokenModel StubTranscribe ''/tmp/tmpa1.mp3''
                 (selected_model example_config upload_request) empty_state) =
             Inl (OSError ''model.bin not found'')"
    by (simp only: selected_model_upload run_transcription_get_model_raises [OF get_model_BrokenModel])
  have "fst (create_transcription example_config MissingModel StubTranscribe working_io
            upload_request empty_state) =
       HTTPException 503
         (''Model '' @ [CHR 0x27] @ ''base'' @ [CHR 0x27]
            @ '' is not available locally. Download it before retrying.'')"
    using create_transcription_failure_mapping [where env = working_io and req = upload_request
        and cfg = example_config and W = MissingModel and T = StubTranscribe
        and s = empty_state, OF upload_request_reaches m]
    by (simp only: selected_model_upload is_ModelNotAvailableError.simps if_True)
  moreover have "fst (create_transcription example_config BrokenModel StubTranscribe working_io
            upload_request empty_state) =
       HTTPException 500 ''Whisper transcription failed.''"
    using create_transcription_failure_mapping [where env = working_io and req = upload_request
        and cfg = example_config and W = BrokenModel and T = StubTranscribe
        and s = empty_state, OF upload_request_reaches b]
    by (simp only: is_ModelNotAvailableError.simps if_False)
  ultimately show ?thesis using upload_request_reaches by (intro conjI)
qed

text \<open>
  The temporary file.  On every path through the \<open>try\<close> statement the handler calls
  \<open>unlink\<close> on the temporary file once; whether \<open>unlink\<close> fails has no influence on
  the response; and a failure is logged as a warning.
\<close>

lemma create_transcription_unlinks:
  assumes "reaches_transcription env req temp_path"
  shows "unlink_calls (snd (create_transcription cfg W T env req s)) =
           unlink_calls s @ [temp_path]"
proof -
  from create_transcription_reached [OF assms, of cfg W T s] obtain s3 where
    s3: "create_transcription cfg W T env req s =
           try_transcription cfg W T env (opt_or (filename req) []) temp_path
             (selected_model cfg req) s3"
      "unlink_calls s3 = unlink_calls s"
    by blast
  then show ?thesis by (simp only: try_transcription_unlink_calls)
qed

lemma reaches_transcription_unlink_fails [simp]:
  "reaches_transcription (env\<lparr>unlink_fails := b\<rparr>) req temp_path =
     reaches_transcription env req temp_path"
  by (simp add: reaches_transcription_def)

lemma create_transcription_unlink_failure_harmless:
  "fst (create_transcription cfg W T (env\<lparr>unlink_fails := b\<rparr>) req s) =
     fst (create_transcription cfg W T env req s)"
  by (simp add: create_transcription_def try_transcription_def Let_def case_prod_beta
        split: sum.splits option.splits prod.splits)

lemma create_transcription_unlink_failure_logged:
  assumes "reaches_transcription env req temp_path" and "unlink_fails env"
  shows "last (logged (snd (create_transcription cfg W T env req s))) =
           (WARNING, ''Failed to remove temporary file %s'', [ArgStr temp_path])"
proof -
  from create_transcription_reached [OF assms(1), of cfg W T s] obtain s3 where
    s3: "create_transcription cfg W T env req s =
           try_transcription cfg W T env (opt_or (filename req) []) temp_path
             (selected_model cfg req) s3"
    by blast
  from assms(2) show ?thesis
    by (simp add: s3 try_transcription_def finally_unlink_def Let_def
          split: prod.splits sum.splits)
qed

text \<open>
  C9 asks for the removal on every path on which the temporary file has been created.
  The \<open>try\<close> statement starts after the \<open>with\<close> block that writes the upload, so
  when that write raises (here: the disk is full) the exception leaves the handler, the
  file created by \<open>NamedTemporaryFile(delete=False)\<close> stays, and \<open>unlink\<close> is never
  called.
\<close>

theorem create_transcription_write_failure_leaks:
  "fst (create_transcription example_config FakeModel StubTranscribe disk_full_io
          upload_request empty_state) =
     Propagated (OSError ''[Errno 28] No space left on device'')
   \<and> tmp_files (snd (create_transcription example_config FakeModel StubTranscribe disk_full_io
                        upload_request empty_state)) = {''/tmp/tmpa1.mp3''}
   \<and> unlink_calls (snd (create_transcription example_config FakeModel StubTranscribe
                           disk_full_io upload_request empty_state)) = []"
  by (simp add: create_transcription_def disk_full_io_def working_io_def upload_request_def
        empty_state_def opt_or_def str_or_def)

section \<open>The keys of the model cache\<close>

lemma last_dropWhile: "dropWhile P xs \<noteq> [] \<Longrightarrow> last (dropWhile P xs) = last xs"
  by (induction xs) auto

lemma dropWhile_strip: "dropWhile isspace (strip s) = strip s"
proof (cases "strip s = []")
  case True
  then show ?thesis by simp
next
  case False
  let ?t = "dropWhile isspace s"
  let ?u = "dropWhile isspace (rev ?t)"
  from False have u: "?u \<noteq> []" by (simp add: strip_def)
  have t: "?t \<noteq> []"
  proof
    assume "?t = []"
    then have "?u = []" by (simp only: rev.simps dropWhile.simps)
    with u show False by contradiction
  qed
  from u have "last ?u = last (rev ?t)" by (rule last_dropWhile)
  also have "\<dots> = hd ?t" using t by (simp add: last_rev)
  finally have "hd (strip s) = hd ?t" using u by (simp add: strip_def hd_rev)
  moreover from t have "\<not> isspace (hd ?t)" by (rule hd_dropWhile)
  ultimately have "\<not> isspace (hd (strip s))" by simp
  with False show ?thesis by (cases "strip s") simp_all
qed

lemma strip_strip [simp]: "strip (strip s) = strip s"
proof -
  have "dropWhile isspace (rev (strip s)) = rev (strip s)"
    by (simp add: strip_def)
  then show ?thesis
    by (simp add: strip_def [of "strip s"] dropWhile_strip)
qed

lemma normalize_large_v3: "normalize_model_name cfg (Some ''large-v3'') = ''large-v3''"
  by (simp add: normalize_defs strip_eval lower_eval)

lemma normalize_large_v3_turbo: "normalize_model_name cfg (Some ''large-v3-turbo'') = ''large-v3''"
  by (simp add: normalize_defs strip_eval lower_eval)

lemma normalize_cases:
  "normalize_model_name cfg r =
     (let n = str_or (strip (opt_or r [])) (DEFAULT_MODEL_NAME cfg)
      in if lower n = ''large-v3-turbo'' then ''large-v3'' else n)"
  by (simp add: normalize_model_name_def normalize_model_name_log_def Let_def MODEL_ALIASES_def)

lemma normalize_fixed_point:
  assumes "strip (DEFAULT_MODEL_NAME cfg) = DEFAULT_MODEL_NAME cfg
           \<or> strip (DEFAULT_MODEL_NAME cfg) = []"
  shows "normalize_model_name cfg (Some (normalize_model_name cfg r)) =
           normalize_model_name cfg r"
proof -
  let ?d = "DEFAULT_MODEL_NAME cfg"
  let ?n = "str_or (strip (opt_or r [])) ?d"
  show ?thesis
  proof (cases "lower ?n = ''large-v3-turbo''")
    case True
    then have "normalize_model_name cfg r = ''large-v3''"
      by (simp add: normalize_cases [of cfg r] Let_def)
    then show ?thesis by (simp add: normalize_large_v3)
  next
    case False
    then have r: "normalize_model_name cfg r = ?n"
      by (simp add: normalize_cases [of cfg r] Let_def)
    have "str_or (strip (opt_or (Some ?n) [])) ?d = ?n"
      using assms by (auto simp add: str_or_def opt_or_def)
    with False have "normalize_model_name cfg (Some ?n) = ?n"
      by (simp add: normalize_cases [of cfg "Some ?n"] Let_def)
    with r show ?thesis by simp
  qed
qed

lemma load_loop_dom:
  "dom (MODEL_CACHE (snd (load_loop cfg W n cands le s))) \<subseteq> insert n (dom (MODEL_CACHE s))"
proof (induction cands arbitrary: le s)
  case Nil
  then show ?case by auto
next
  case (Cons c cands)
  show ?case
  proof (cases "caught (W (ctor_calls s) (call_of cfg n c))")
    case True
    then obtain exc where m: "W (ctor_calls s) (call_of cfg n c) = Inl exc" "is_ValueError exc"
      by (auto simp add: caught_iff)
    from load_loop_step_caught [where W = W and s = s and cfg = cfg and n = n and c = c
      and cands = cands and le = le, OF m] obtain s3 where
      s3: "load_loop cfg W n (c # cands) le s = load_loop cfg W n cands (Some exc) s3"
        "MODEL_CACHE s3 = MODEL_CACHE s"
      by blast
    from Cons.IH [of "Some exc" s3] show ?thesis
      by (simp only: s3)
  next
    case False
    note a = load_loop_step_other(3) [where W = W and s = s and cfg = cfg and n = n and c = c
        and cands = cands and le = le, OF refl False]
    show ?thesis
      by (auto simp add: a split: sum.splits)
  qed
qed

lemma get_model_dom:
  "dom (MODEL_CACHE (snd (get_model cfg W model_name s))) \<subseteq>
     insert (normalize_model_name cfg (Some model_name)) (dom (MODEL_CACHE s))"
proof (cases "MODEL_CACHE s (normalize_model_name cfg (Some model_name))")
  case None
  from get_model_miss [OF None, of W] obtain s0 where
    s0: "get_model cfg W model_name s =
           load_loop cfg W (normalize_model_name cfg (Some model_name))
             (compute_type_candidates cfg) None s0"
      "MODEL_CACHE s0 = MODEL_CACHE s"
    by blast
  from load_loop_dom [of cfg W "normalize_model_name cfg (Some model_name)"
      "compute_type_candidates cfg" None s0]
  show ?thesis by (simp only: s0)
next
  case (Some h)
  from get_model_hit(3) [OF Some, of W] show ?thesis by auto
qed

lemma run_transcription_cache:
  "MODEL_CACHE (snd (run_transcription cfg W T audio_path model_name s)) =
     MODEL_CACHE (snd (get_model cfg W model_name s))"
  by (cases "get_model cfg W model_name s")
     (simp add: run_transcription_def Let_def case_prod_beta split: sum.splits option.splits)

lemma try_transcription_cache:
  "MODEL_CACHE (snd (try_transcription cfg W T env file_name temp_path model s)) =
     MODEL_CACHE (snd (get_model cfg W model s))"
proof -
  obtain r s1 where a: "run_transcription cfg W T temp_path model s = (r, s1)" by fastforce
  with run_transcription_cache [of cfg W T temp_path model s]
  have "MODEL_CACHE s1 = MODEL_CACHE (snd (get_model cfg W model s))" by simp
  with a show ?thesis
    by (simp add: try_transcription_def Let_def split: prod.splits sum.splits)
qed

lemma create_transcription_dom:
  "dom (MODEL_CACHE (snd (create_transcription cfg W T env req s))) \<subseteq>
     insert (normalize_model_name cfg (Some (selected_model cfg req))) (dom (MODEL_CACHE s))"
proof (cases "\<exists>temp_path. reaches_transcription env req temp_path")
  case True
  then obtain temp_path where r: "reaches_transcription env req temp_path" by blast
  from create_transcription_reached [OF r, of cfg W T s] obtain s3 where
    s3: "create_transcription cfg W T env req s =
           try_transcription cfg W T env (opt_or (filename req) []) temp_path
             (selected_model cfg req) s3"
      "same_models s3 s"
    by blast
  from s3(2) have "MODEL_CACHE s3 = MODEL_CACHE s" by (simp add: same_models_def)
  with get_model_dom [of cfg W "selected_model cfg req" s3] show ?thesis
    by (simp only: s3(1) try_transcription_cache)
next
  case False
  then have "MODEL_CACHE (snd (create_transcription cfg W T env req s)) = MODEL_CACHE s"
    by (auto simp add: reaches_transcription_def create_transcription_def Let_def
          split: sum.splits option.splits)
  then show ?thesis by auto
qed

lemma get_model_Inr_cached:
  assumes "get_model cfg W model_name s = (Inr model, s')"
  shows "MODEL_CACHE s' (normalize_model_name cfg (Some model_name)) = Some model"
proof (cases "MODEL_CACHE s (normalize_model_name cfg (Some model_name))")
  case None
  from get_model_miss [OF None, of W] obtain s0 where
    "get_model cfg W model_name s =
       load_loop cfg W (normalize_model_name cfg (Some model_name))
         (compute_type_candidates cfg) None s0"
    by blast
  with assms show ?thesis by (auto dest: load_loop_Inr_cached)
next
  case (Some h)
  from get_model_hit(1,3) [OF Some, of W] assms show ?thesis
    using Some by simp
qed

lemma keys_step:
  assumes sub: "dom m' \<subseteq> insert key (dom m)"
    and old: "\<forall>k \<in> dom m. P k" and new: "P key"
  shows "\<forall>k \<in> dom m'. P k"
proof
  fix k assume "k \<in> dom m'"
  with sub have "k = key \<or> k \<in> dom m" by auto
  then show "P k"
  proof
    assume "k = key"
    with new show ?thesis by simp
  next
    assume "k \<in> dom m"
    with old show ?thesis by simp
  qed
qed

lemma run_calls_keys:
  assumes "\<forall>k \<in> dom (MODEL_CACHE s). P k"
    and "\<And>requested. P (normalize_model_name cfg requested)"
  shows "\<forall>k \<in> dom (MODEL_CACHE (run_calls cfg W T calls s)). P k"
  using assms(1)
proof (induction calls arbitrary: s)
  case Nil
  then show ?case by simp
next
  case (Cons call rest)
  show ?case
  proof (cases call)
    case (GetModel model_name)
    have "\<forall>k \<in> dom (MODEL_CACHE (snd (get_model cfg W model_name s))). P k"
      by (rule keys_step [OF get_model_dom Cons.prems]) (rule assms(2))
    from Cons.IH [OF this] show ?thesis by (simp only: GetModel run_calls.simps)
  next
    case (PostTranscription env req)
    have "\<forall>k \<in> dom (MODEL_CACHE (snd (create_transcription cfg W T env req s))). P k"
      by (rule keys_step [OF create_transcription_dom Cons.prems]) (rule assms(2))
    from Cons.IH [OF this] show ?thesis by (simp only: PostTranscription run_calls.simps)
  qed
qed

lemma padded_default_config_fields [simp]:
  "DEFAULT_MODEL_NAME padded_default_config = '' base ''"
  "WHISPER_DEVICE padded_default_config = ''auto''"
  "WHISPER_COMPUTE_TYPE padded_default_config = Some ''auto''"
  by (simp_all add: padded_default_config_def)

lemma get_model_FakeModel_turbo:
  "fst (get_model example_config FakeModel ''large-v3-turbo'' empty_state) =
     Inr (''large-v3'', ''auto'', ''int8_float32'')"
proof -
  have n: "normalize_model_name example_config (Some ''large-v3-turbo'') = ''large-v3''"
    by (rule normalize_large_v3_turbo)
  have miss: "MODEL_CACHE (empty_state :: ctor_call server_state)
                (normalize_model_name example_config (Some ''large-v3-turbo'')) = None"
    by (simp add: empty_state_def)
  from get_model_miss [OF miss, of FakeModel] obtain s0 where
    s0: "get_model example_config FakeModel ''large-v3-turbo'' empty_state =
           load_loop example_config FakeModel
             (normalize_model_name example_config (Some ''large-v3-turbo''))
             (compute_type_candidates example_config) None s0"
      "ctor_calls s0 = ctor_calls (empty_state :: ctor_call server_state)"
    by (elim exE conjE)
  have k: "1 < length (compute_type_candidates example_config)"
    by (simp add: example_candidates)
  have b: "\<forall>i<1. caught (attempt_outcome example_config FakeModel
              (normalize_model_name example_config (Some ''large-v3-turbo'')) (ctor_calls s0)
              (compute_type_candidates example_config) i)"
    by (simp add: attempt_outcome_def FakeModel_def call_of_def example_candidates)
  have r: "attempt_outcome example_config FakeModel
              (normalize_model_name example_config (Some ''large-v3-turbo'')) (ctor_calls s0)
              (compute_type_candidates example_config) 1 =
             Inr (''large-v3'', ''auto'', ''int8_float32'')"
    by (simp add: attempt_outcome_def FakeModel_def call_of_def example_candidates n)
  have o: "\<not> caught (Inr (''large-v3'', ''auto'', ''int8_float32'') :: py_exception + ctor_call)"
    by simp
  from load_loop_stop [where W = FakeModel and cfg = example_config and s = s0 and le = None,
      OF k b r o]
  show ?thesis by (simp only: s0(1))
qed

text \<open>
  C10, as stated, fails: the configured default is used as it is, untrimmed.  With the
  default \<open>" base "\<close>, \<open>get_model("")\<close> stores the handle under the key \<open>" base "\<close>,
  and \<open>normalize_model_name(" base ")\<close> is \<open>"base"\<close>: the key is not a fixed point.
\<close>

theorem model_cache_key_not_fixed_counterexample:
  "MODEL_CACHE (snd (get_model padded_default_config FakeModel [] empty_state)) '' base '' =
     Some ('' base '', ''auto'', ''auto'')
   \<and> normalize_model_name padded_default_config (Some '' base '') = ''base''"
proof -
  have n: "normalize_model_name_log padded_default_config (Some []) = ('' base '', [])"
    by (simp add: normalize_model_name_log_def str_or_def opt_or_def Let_def MODEL_ALIASES_def
          lower_eval)
  have c: "compute_type_candidates padded_default_config = [''auto'']"
    by (simp add: compute_type_candidates_def add_def Let_def str_or_def opt_or_def lower_eval)
  have "MODEL_CACHE (snd (get_model padded_default_config FakeModel [] empty_state)) '' base '' =
     Some ('' base '', ''auto'', ''auto'')"
    by (simp add: get_model_def n c empty_state_def load_loop.simps Let_def FakeModel_def)
  moreover have "normalize_model_name padded_default_config (Some '' base '') = ''base''"
    by (simp add: normalize_defs strip_eval lower_eval)
  ultimately show ?thesis by (intro conjI)
qed

text \<open>
  C10, amended.  \<open>get_model\<close> normalises its argument before the cache lookup and the
  insertion, so after any sequence of \<open>get_model\<close> calls and requests from an empty
  cache every key of the cache is \<open>normalize_model_name\<close> of some name, and it is a
  fixed point of \<open>normalize_model_name\<close> when the configured default has no leading or
  trailing whitespace (or is blank).  For every configuration, \<open>large-v3-turbo\<close> and
  \<open>large-v3\<close> normalise to \<open>large-v3\<close>; after \<open>get_model("large-v3-turbo")\<close> has
  returned a handle, \<open>get_model("large-v3")\<close> returns the same handle from the same
  entry without a constructor call; and \<open>get_model("large-v3-turbo")\<close> adds no key
  but \<open>large-v3\<close>.
\<close>

theorem model_cache_keys_normalized:
  assumes "MODEL_CACHE s = Map.empty"
  shows "(\<forall>k \<in> dom (MODEL_CACHE (run_calls cfg W T calls s)).
            \<exists>requested. k = normalize_model_name cfg requested)
       \<and> (strip (DEFAULT_MODEL_NAME cfg) = DEFAULT_MODEL_NAME cfg
            \<or> strip (DEFAULT_MODEL_NAME cfg) = [] \<longrightarrow>
          (\<forall>k \<in> dom (MODEL_CACHE (run_calls cfg W T calls s)).
             normalize_model_name cfg (Some k) = k))
       \<and> normalize_model_name cfg (Some ''large-v3-turbo'') = ''large-v3''
       \<and> normalize_model_name cfg (Some ''large-v3'') = ''large-v3''
       \<and> (get_model cfg W ''large-v3-turbo'' s1 = (Inr model, s2) \<longrightarrow>
            MODEL_CACHE s2 ''large-v3'' = Some model
            \<and> fst (get_model cfg W' ''large-v3'' s2) = Inr model
            \<and> ctor_calls (snd (get_model cfg W' ''large-v3'' s2)) = ctor_calls s2
            \<and> MODEL_CACHE (snd (get_model cfg W' ''large-v3'' s2)) = MODEL_CACHE s2)
       \<and> dom (MODEL_CACHE (snd (get_model cfg W ''large-v3-turbo'' s1))) \<subseteq>
            insert ''large-v3'' (dom (MODEL_CACHE s1))"
proof (intro conjI impI)
  from assms have e: "\<forall>k \<in> dom (MODEL_CACHE s). \<exists>requested. k = normalize_model_name cfg requested"
    by simp
  show "\<forall>k \<in> dom (MODEL_CACHE (run_calls cfg W T calls s)).
          \<exists>requested. k = normalize_model_name cfg requested"
  proof (rule run_calls_keys [OF e])
    fix requested
    show "\<exists>r. normalize_model_name cfg requested = normalize_model_name cfg r"
      by (rule exI) (rule refl)
  qed
next
  assume d: "strip (DEFAULT_MODEL_NAME cfg) = DEFAULT_MODEL_NAME cfg
             \<or> strip (DEFAULT_MODEL_NAME cfg) = []"
  from assms have e: "\<forall>k \<in> dom (MODEL_CACHE s). normalize_model_name cfg (Some k) = k"
    by simp
  show "\<forall>k \<in> dom (MODEL_CACHE (run_calls cfg W T calls s)).
          normalize_model_name cfg (Some k) = k"
    by (rule run_calls_keys [OF e]) (rule normalize_fixed_point [OF d])
next
  show "normalize_model_name cfg (Some ''large-v3-turbo'') = ''large-v3''"
    by (rule normalize_large_v3_turbo)
next
  show "normalize_model_name cfg (Some ''large-v3'') = ''large-v3''"
    by (rule normalize_large_v3)
next
  assume g: "get_model cfg W ''large-v3-turbo'' s1 = (Inr model, s2)"
  from get_model_Inr_cached [OF g] show c: "MODEL_CACHE s2 ''large-v3'' = Some model"
    by (simp only: normalize_large_v3_turbo)
  then have c': "MODEL_CACHE s2 (normalize_model_name cfg (Some ''large-v3'')) = Some model"
    by (simp only: normalize_large_v3)
  from get_model_hit(1) [OF c', of W']
  show "fst (get_model cfg W' ''large-v3'' s2) = Inr model" .
  from get_model_hit(2) [OF c', of W']
  show "ctor_calls (snd (get_model cfg W' ''large-v3'' s2)) = ctor_calls s2" .
  from get_model_hit(3) [OF c', of W']
  show "MODEL_CACHE (snd (get_model cfg W' ''large-v3'' s2)) = MODEL_CACHE s2" .
next
  from get_model_dom [of cfg W "''large-v3-turbo''" s1]
  show "dom (MODEL_CACHE (snd (get_model cfg W ''large-v3-turbo'' s1))) \<subseteq>
            insert ''large-v3'' (dom (MODEL_CACHE s1))"
    by (simp only: normalize_large_v3_turbo)
qed

theorem model_cache_keys_normalized_witness:
  "MODEL_CACHE (empty_state :: ctor_call server_state) = Map.empty
   \<and> strip (DEFAULT_MODEL_NAME example_config) = DEFAULT_MODEL_NAME example_config
   \<and> fst (get_model example_config FakeModel ''large-v3-turbo'' empty_state) =
       Inr (''large-v3'', ''auto'', ''int8_float32'')
   \<and> MODEL_CACHE (snd (get_model example_config FakeModel ''large-v3-turbo'' empty_state))
        ''large-v3'' = Some (''large-v3'', ''auto'', ''int8_float32'')
   \<and> normalize_model_name example_config (Some ''large-v3'') = ''large-v3''
   \<and> fst (get_model example_config NeverCalled ''large-v3''
            (snd (get_model example_config FakeModel ''large-v3-turbo'' empty_state))) =
       Inr (''large-v3'', ''auto'', ''int8_float32'')
   \<and> MODEL_CACHE (snd (get_model example_config NeverCalled ''large-v3''
            (snd (get_model example_config FakeModel ''large-v3-turbo'' empty_state)))) =
       MODEL_CACHE (snd (get_model example_config FakeModel ''large-v3-turbo'' empty_state))"
proof -
  let ?s2 = "snd (get_model example_config FakeModel ''large-v3-turbo'' empty_state)"
  let ?m = "(''large-v3'', ''auto'', ''int8_float32'')"
  have h1: "MODEL_CACHE (empty_state :: ctor_call server_state) = Map.empty"
    by (simp add: empty_state_def)
  have h2: "strip (DEFAULT_MODEL_NAME example_config) = DEFAULT_MODEL_NAME example_config"
    by (simp add: strip_eval)
  have h3: "get_model example_config FakeModel ''large-v3-turbo'' empty_state = (Inr ?m, ?s2)"
    using get_model_FakeModel_turbo by (simp add: prod_eq_iff)
  note t = model_cache_keys_normalized [where s = "empty_state :: ctor_call server_state"
      and cfg = example_config and W = FakeModel and T = "StubTranscribe"
      and calls = "[GetModel ''large-v3-turbo'']" and ?s1.0 = empty_state
      and model = ?m and ?s2.0 = ?s2 and W' = NeverCalled, OF h1]
  note fixed = t [THEN conjunct2, THEN conjunct1, THEN mp, OF disjI1, OF h2]
  note n3 = t [THEN conjunct2, THEN conjunct2, THEN conjunct2, THEN conjunct1]
  note c = t [THEN conjunct2, THEN conjunct2, THEN conjunct2, THEN conjunct2, THEN conjunct1,
              THEN mp, OF h3]
  note c1 = c [THEN conjunct1]
  note c2 = c [THEN conjunct2, THEN conjunct1]
  note c4 = c [THEN conjunct2, THEN conjunct2, THEN conjunct2]
  show ?thesis
    apply (intro conjI)
          apply (rule h1)
         apply (rule h2)
        apply (rule get_model_FakeModel_turbo)
       apply (rule c1)
      apply (rule n3)
     apply (rule c2)
    apply (rule c4)
    done
qed

end
